theory Spec2Isabelle
  imports
    Main
    "HOL-Library.AList"
    "HOL-Library.Product_Lexorder"
    "HOL-Library.Signed_Division"
begin

section \<open>JavaScript values and errors\<close>

text \<open>
  A thrown exception is a value: \<open>Error msg\<close> for \<open>throw new Error(msg)\<close>, and
  \<open>TypeError msg\<close> for the exceptions the engine itself raises (reading a property of
  \<open>undefined\<close>, calling \<open>new\<close> on a string). A function that can throw returns
  \<open>error + 'a\<close>, with \<open>Inl\<close> the exception.

  BigInt amounts are \<open>int\<close>, and BigInt division rounds towards zero (\<open>sdiv\<close>).
\<close>

datatype error = Error string | TypeError string

subsection \<open>Numbers\<close>

text \<open>
  Block numbers and request counters are JavaScript numbers, that is IEEE doubles,
  holding integers; such a number is an \<open>int\<close> here. A double has a mantissa of 53
  bits: every integer up to \<open>2 ^ 53\<close> in magnitude is a double, and a larger one is a
  double only when it is a multiple of the power of two that its size calls for.
  \<open>+\<close> and \<open>-\<close> on numbers give the exact result rounded to the nearest double, a tie
  going to the even mantissa. (A result of magnitude \<open>2 ^ 1024\<close> or more is Infinity in
  JavaScript; \<open>int\<close> has no such value, and nothing proved here reaches that size.)
\<close>

function bit_length :: "int \<Rightarrow> nat" where
  "bit_length n = (if n \<le> 0 then 0 else Suc (bit_length (n div 2)))"
  by pat_completeness auto
termination
  by (relation "measure nat") auto

declare bit_length.simps [simp del]

definition round_double :: "int \<Rightarrow> int" where
  "round_double x =
     (let a = \<bar>x\<bar> in
      if a \<le> 2 ^ 53 then x
      else
        (let e = bit_length a - 53;
             q = a div 2 ^ e;
             r = a mod 2 ^ e;
             half = 2 ^ (e - 1);
             q' = (if r > half \<or> (r = half \<and> odd q) then q + 1 else q)
         in sgn x * (q' * 2 ^ e)))"

definition js_add :: "int \<Rightarrow> int \<Rightarrow> int" where
  "js_add a b = round_double (a + b)"

definition js_sub :: "int \<Rightarrow> int \<Rightarrow> int" where
  "js_sub a b = round_double (a - b)"

section \<open>The election contract\<close>

subsection \<open>Data\<close>

text \<open>
  A candidate as \<open>propose\<close>, \<open>vote\<close> and \<open>punish\<close> write it. The optional properties
  \<open>voters\<close>, \<open>jailedUntilBlock\<close> and \<open>slashed\<close> are \<open>None\<close> while undefined; \<open>jailed\<close> is
  only ever tested for truthiness and set to \<open>true\<close>, so undefined is \<open>False\<close>.
  An object keyed by strings is an association list in insertion order, which is the
  order \<open>Object.entries\<close> and \<open>Object.values\<close> enumerate (public keys and addresses are
  not array indices).
\<close>

record candidate =
  deposit :: int
  block :: int
  operator :: string
  name :: string
  voters :: "(string \<times> int) list option"
  jailed :: bool
  jailedUntilBlock :: "int option"
  slashed :: "int option"

type_synonym candidates = "(string \<times> candidate) list"

text \<open>\<open>withdrawList[pubkey][unlockBlock]\<close> is the pending amount.\<close>

type_synonym withdrawList = "(string \<times> (int \<times> int) list) list"

text \<open>
  The contract's storage: the keys \<open>candidates\<close> and \<open>withdraw\<close>, each \<open>None\<close> while it
  has never been set (or was set to undefined).
\<close>

record storage =
  st_candidates :: "candidates option"
  st_withdraw :: "withdrawList option"

subsection \<open>punish\<close>

text \<open>
  An argument of \<open>punish\<close>'s option object as the validation tells values apart:
  a missing property, a value whose \<open>typeof\<close> is not \<open>number\<close>, a number that
  \<open>Number.isInteger\<close> rejects (a fraction, NaN, an infinity), or an integer.
\<close>

datatype jsarg = JUndefined | JNotNumber | JNonInteger | JInt int

definition MILLION :: int where
  "MILLION = 1000000"

text \<open>The destructuring default \<open>= 0\<close>.\<close>

fun dflt0 :: "jsarg \<Rightarrow> jsarg" where
  "dflt0 JUndefined = JInt 0"
| "dflt0 a = a"

text \<open>
  \<open>typeof x !== 'number' || x < 0 || !Number.isInteger(x) || x > MILLION\<close>. For a
  non-integer number the third disjunct holds whatever the comparisons give.
\<close>

fun invalidRate :: "jsarg \<Rightarrow> bool" where
  "invalidRate (JInt n) = (n < 0 \<or> n > MILLION)"
| "invalidRate _ = True"

text \<open>\<open>typeof x !== 'number' || x < 0 || !Number.isInteger(x)\<close>.\<close>

fun invalidCount :: "jsarg \<Rightarrow> bool" where
  "invalidCount (JInt n) = (n < 0)"
| "invalidCount _ = True"

fun isZero :: "jsarg \<Rightarrow> bool" where
  "isZero (JInt n) = (n = 0)"
| "isZero _ = False"

fun numOf :: "jsarg \<Rightarrow> int" where
  "numOf (JInt n) = n"
| "numOf _ = 0"

text \<open>\<open>candidate.deposit * N_MILLION / BigInt(slashedRatePerMillion)\<close>.\<close>

definition slashedAmount :: "int \<Rightarrow> int \<Rightarrow> int" where
  "slashedAmount dep rate = (dep * MILLION) sdiv rate"

text \<open>The block \<open>if (slashedRatePerMillion > 0) { ... }\<close>.\<close>

definition slash :: "int \<Rightarrow> candidate \<Rightarrow> candidate" where
  "slash rate c =
     (if rate > 0 then
        (let amt = slashedAmount (deposit c) rate in
         c\<lparr> slashed := Some ((case slashed c of None \<Rightarrow> 0 | Some s \<Rightarrow> s) + amt),
            deposit := deposit c - amt \<rparr>)
      else c)"

text \<open>
  \<open>(candidate.jailedUntilBlock && (candidate.jailedUntilBlock > blockNum))
     ? (candidate.jailedUntilBlock - blockNum) : 0\<close>: an undefined or zero
  \<open>jailedUntilBlock\<close> is falsy.
\<close>

definition pendingJailedBlock :: "candidate \<Rightarrow> int \<Rightarrow> int" where
  "pendingJailedBlock c blockNum =
     (case jailedUntilBlock c of
        None \<Rightarrow> 0
      | Some u \<Rightarrow> if u \<noteq> 0 \<and> u > blockNum then js_sub u blockNum else 0)"

text \<open>
  The block \<open>if (jailedBlockCount > 0) { ... }\<close>;
  \<open>blockNum + pendingJailedBlock + jailedBlockCount\<close> adds numbers from left to right.
\<close>

definition jail :: "int \<Rightarrow> int \<Rightarrow> candidate \<Rightarrow> candidate" where
  "jail blockNum cnt c =
     (if cnt > 0 then
        c\<lparr> jailed := True,
           jailedUntilBlock :=
             Some (js_add (js_add blockNum (pendingJailedBlock c blockNum)) cnt) \<rparr>
      else c)"

text \<open>
  \<open>this.unsafeStateManager().getAccountState(CONTRACT_NAME).storage || {}\<close> followed by
  \<open>storage[CANDIDATES_KEY] || {}\<close>.
\<close>

definition candidatesOf :: "storage option \<Rightarrow> candidates" where
  "candidatesOf sto =
     (case sto of
        None \<Rightarrow> []
      | Some st \<Rightarrow> (case st_candidates st of None \<Rightarrow> [] | Some cs \<Rightarrow> cs))"

definition storageOr :: "storage option \<Rightarrow> storage" where
  "storageOr sto = (case sto of None \<Rightarrow> \<lparr> st_candidates = None, st_withdraw = None \<rparr> | Some st \<Rightarrow> st)"

text \<open>
  \<open>exports.punish\<close>. The first argument is the election account's \<open>storage\<close> as the state
  manager holds it (\<open>None\<close> when the account has none). The candidate is changed in
  place, through the reference into that storage, so the result is the storage with the
  candidate replaced at its position. The \<open>tags\<close> argument is never used.
\<close>

definition punish :: "storage option \<Rightarrow> string \<Rightarrow> int \<Rightarrow> jsarg \<Rightarrow> jsarg \<Rightarrow> error + storage" where
  "punish sto pubkey blockNum rate0 cnt0 =
     (let slashedRatePerMillion = dflt0 rate0;
          jailedBlockCount = dflt0 cnt0 in
      if invalidRate slashedRatePerMillion then
        Inl (Error ''Invalid slashedRatePerMillion. slashedRatePerMillion must be a number between 0 and 1.'')
      else if invalidCount jailedBlockCount then
        Inl (Error ''Invalid jailedBlockCount. jailedBlockCount must be a positive integer.'')
      else if isZero slashedRatePerMillion \<or> isZero jailedBlockCount then
        Inl (Error ''Either slashedRate or jailedBlockCount must be specified.'')
      else
        (let candidateList = candidatesOf sto in
         case map_of candidateList pubkey of
           None \<Rightarrow> Inl (Error (''Validator '' @ pubkey @ '' not found. Cannot punish.''))
         | Some c \<Rightarrow>
             Inr ((storageOr sto)\<lparr> st_candidates :=
                    Some (AList.update pubkey
                            (jail blockNum (numOf jailedBlockCount) (slash (numOf slashedRatePerMillion) c))
                            candidateList) \<rparr>)))"

text \<open>The storage a call leaves behind: nothing when it threw.\<close>

definition punish_result_storage :: "error + storage \<Rightarrow> storage option" where
  "punish_result_storage r = (case r of Inl e \<Rightarrow> None | Inr st \<Rightarrow> Some st)"

subsection \<open>getCandidates and getValidators\<close>

text \<open>
  What \<open>_getCandidates\<close> returns for each entry: a deep copy of the candidate with the
  property \<open>pubKey = { type: 'ed25519', data: key }\<close> added. \<open>_populateCapacity\<close> then
  sets \<open>capacity\<close>, which is \<open>None\<close> (undefined) until it does.
\<close>

record pubKey =
  pk_type :: string
  pk_data :: string

record listed = candidate +
  pubKey :: pubKey
  capacity :: "int option"

definition clone_with_pubKey :: "string \<Rightarrow> candidate \<Rightarrow> listed" where
  "clone_with_pubKey key v =
     candidate.extend v (listed.fields \<lparr> pk_type = ''ed25519'', pk_data = key \<rparr> None)"

text \<open>\<open>_getCandidates\<close>: the entries in enumeration order, a jailed one only on request.\<close>

fun getCandidates_raw :: "candidates \<Rightarrow> bool \<Rightarrow> listed list" where
  "getCandidates_raw [] includeJailed = []"
| "getCandidates_raw ((key, v) # rest) includeJailed =
     (if includeJailed \<or> \<not> jailed v
      then clone_with_pubKey key v # getCandidates_raw rest includeJailed
      else getCandidates_raw rest includeJailed)"

text \<open>
  \<open>Object.values(c.voters).reduce((v, sum) => (v + sum), BigInt(0))\<close>, added to the
  deposit when \<open>c.voters\<close> is an object.
\<close>

definition capacityOf :: "'a candidate_scheme \<Rightarrow> int" where
  "capacityOf c =
     deposit c + (case voters c of
                    None \<Rightarrow> 0
                  | Some vs \<Rightarrow> foldl (\<lambda>v sum. v + sum) 0 (map snd vs))"

text \<open>
  lodash's \<open>_.orderBy(candidates, ['capacity', 'block'], ['desc', 'asc'])\<close>, from its
  documentation: a stable sort by the first key descending, then by the second
  ascending; elements equal in both keep their order. Its comparison puts an undefined
  value after every number in ascending order, so first in descending order.
  The sort key is ordered lexicographically: \<open>(0, 0)\<close> for an undefined capacity and
  \<open>(1, - capacity)\<close> otherwise, then the block.
\<close>

fun capKey :: "int option \<Rightarrow> nat \<times> int" where
  "capKey None = (0, 0)"
| "capKey (Some n) = (1, - n)"

definition orderKey :: "listed \<Rightarrow> (nat \<times> int) \<times> int" where
  "orderKey c = (capKey (capacity c), block c)"

definition orderBy_capacity_desc_block_asc :: "listed list \<Rightarrow> listed list" where
  "orderBy_capacity_desc_block_asc cs = sort_key orderKey cs"

text \<open>\<open>_populateCapacity\<close>.\<close>

definition populateCapacity :: "listed list \<Rightarrow> bool \<Rightarrow> listed list" where
  "populateCapacity cs sorted_flag =
     (let cs' = map (\<lambda>c. c\<lparr> capacity := Some (capacityOf c) \<rparr>) cs in
      if sorted_flag then orderBy_capacity_desc_block_asc cs' else cs')"


text \<open>
  \<open>_rawCandidates\<close>: \<open>c.getState('candidates', {})\<close>, the stored value or the default
  for a key that is not stored.
\<close>

definition rawCandidates :: "storage \<Rightarrow> candidates" where
  "rawCandidates c = (case st_candidates c of None \<Rightarrow> [] | Some cs \<Rightarrow> cs)"

text \<open>The contract's methods \<open>getCandidates(includeJailed = false)\<close> and \<open>getValidators()\<close>.\<close>

definition getCandidates :: "storage \<Rightarrow> bool \<Rightarrow> listed list" where
  "getCandidates context includeJailed =
     populateCapacity (getCandidates_raw (rawCandidates context) includeJailed) True"





subsection \<open>resign\<close>

text \<open>The parts of the message and of the block that the contract reads.\<close>

record msg =
  msg_sender :: string
  msg_signers :: "string list"
  msg_value :: int

record blockinfo =
  blk_number :: int
  blk_timestamp :: int

text \<open>
  \<open>_rawWithdrawList = c => c.getState(WITHDRAW_KEY, {})\<close>. The argument is \<open>None\<close> when
  the function is called without one: \<open>c\<close> is then undefined and reading \<open>c.getState\<close>
  raises a TypeError.
\<close>

definition rawWithdrawList :: "storage option \<Rightarrow> error + withdrawList" where
  "rawWithdrawList c =
     (case c of
        None \<Rightarrow> Inl (TypeError ''Cannot read property 'getState' of undefined'')
      | Some st \<Rightarrow> Inr (case st_withdraw st of None \<Rightarrow> [] | Some w \<Rightarrow> w))"

text \<open>\<open>_addToWithdrawList\<close>.\<close>

definition addToWithdrawList :: "withdrawList \<Rightarrow> string \<Rightarrow> int \<Rightarrow> int \<Rightarrow> withdrawList" where
  "addToWithdrawList withdrawList pubkey amount unlockBlock =
     (let w = (case map_of withdrawList pubkey of None \<Rightarrow> [] | Some w \<Rightarrow> w);
          old = (case map_of w unlockBlock of None \<Rightarrow> 0 | Some a \<Rightarrow> a)
      in AList.update pubkey (AList.update unlockBlock (old + amount) w) withdrawList)"

text \<open>
  The contract's method \<open>resign\<close>. \<open>checkPermission\<close> stands for the Did system
  contract's check (not part of the sources): it gives the error it throws, or \<open>None\<close>
  when the signers may act for the operator. Statement by statement:
  \<^item> \<open>throw new (`Validator candidate ${pubkey} not found.`)()\<close> applies \<open>new\<close> to a
    string, which raises a TypeError;
  \<^item> \<open>_rawWithdrawList()\<close> is called without the context;
  \<^item> \<open>context.setState(WITHDRAW_KEY)\<close> passes no value, so the key is set to undefined.
\<close>

definition resign ::
  "(string \<Rightarrow> string list \<Rightarrow> int \<Rightarrow> error option) \<Rightarrow> msg \<Rightarrow> blockinfo \<Rightarrow> storage \<Rightarrow> string
     \<Rightarrow> error + storage" where
  "resign checkPermission m blk context pubkey =
     (let candidates = rawCandidates context in
      case map_of candidates pubkey of
        None \<Rightarrow> Inl (TypeError (''Validator candidate '' @ pubkey @ '' not found. is not a constructor''))
      | Some me \<Rightarrow>
          (case checkPermission (operator me) (msg_signers m) (blk_timestamp blk) of
             Some e \<Rightarrow> Inl e
           | None \<Rightarrow>
               (case rawWithdrawList None of
                  Inl e \<Rightarrow> Inl e
                | Inr withdrawList \<Rightarrow>
                    (let validatorWithdrawLockNumOfBlock = 10;
                         wl1 = addToWithdrawList withdrawList pubkey (deposit me)
                                 (js_add (blk_number blk) validatorWithdrawLockNumOfBlock);
                         voterWithdrawLockNumOfBlock = 1;
                         wl2 = (case voters me of
                                  None \<Rightarrow> wl1
                                | Some vs \<Rightarrow>
                                    foldl (\<lambda>wl (p, v). addToWithdrawList wl p v
                                             (js_add (blk_number blk) voterWithdrawLockNumOfBlock))
                                      wl1 vs)
                     in Inr (context\<lparr> st_candidates := Some (AList.delete pubkey candidates),
                                     st_withdraw := None \<rparr>)))))"

section \<open>The gate contract\<close>

subsection \<open>Stored values\<close>

text \<open>
  The gate keeps everything in one key-value store: the providers under \<open>prividers\<close>,
  a counter under \<open><sender>_c\<close> and each request under its id. A stored value is a
  number, a string, a request or another object; an object that is not a request is kept
  as its own properties, each with a string for its value.
\<close>

datatype pathArg = PathString string | PathObject "string option" "string option"

record requestData =
  rq_path :: pathArg
  rq_data :: "string option"
  rq_options :: "(string \<times> string) list"

datatype sval = SNum int | SStr string | SRequest requestData | SObject "(string \<times> string) list"

text \<open>
  An event: its name, its data (\<open>{ id, path }\<close> for a query, the provider record for a
  registration) and the names of the indexed fields.
\<close>

datatype eventData = QueryData string pathArg | ProviderData "(string \<times> string) list"

record event =
  ev_name :: string
  ev_data :: eventData
  ev_indexes :: "string list"

record gate_state =
  store :: "string \<rightharpoonup> sval"
  events :: "event list"

definition PROVIDERS_KEY :: string where
  "PROVIDERS_KEY = ''prividers''"

text \<open>
  Modelled from the spec: the accessors of the context that the runtime hands to a
  system contract (the runtime is not part of the sources), over the contract's
  per-key storage: \<open>getState(key, defVal)\<close> reads a key, with the default for a key that
  is not stored; \<open>setState\<close> writes one, \<open>deleteState\<close> removes one, and \<open>emitEvent\<close>
  appends to the events of the call.
\<close>

definition getState :: "gate_state \<Rightarrow> string \<Rightarrow> sval \<Rightarrow> sval" where
  "getState gs key defVal = (case store gs key of None \<Rightarrow> defVal | Some v \<Rightarrow> v)"

definition setState :: "gate_state \<Rightarrow> string \<Rightarrow> sval \<Rightarrow> gate_state" where
  "setState gs key v = gs\<lparr> store := (store gs)(key \<mapsto> v) \<rparr>"

definition deleteState :: "gate_state \<Rightarrow> string \<Rightarrow> gate_state" where
  "deleteState gs key = gs\<lparr> store := (store gs)(key := None) \<rparr>"

definition emitEvent :: "gate_state \<Rightarrow> string \<Rightarrow> eventData \<Rightarrow> string list \<Rightarrow> gate_state" where
  "emitEvent gs eventName eventData indexes =
     gs\<lparr> events := events gs @ [\<lparr> ev_name = eventName, ev_data = eventData, ev_indexes = indexes \<rparr>] \<rparr>"

subsection \<open>Numbers as text\<close>

text \<open>The decimal text of an integer, as string concatenation produces it.\<close>

definition digit :: "nat \<Rightarrow> char" where
  "digit n = ''0123456789'' ! n"

fun show_nat :: "nat \<Rightarrow> string" where
  "show_nat n = (if n < 10 then [digit n] else show_nat (n div 10) @ [digit (n mod 10)])"

declare show_nat.simps [simp del]

definition show_int :: "int \<Rightarrow> string" where
  "show_int i = (if i < 0 then CHR ''-'' # show_nat (nat (- i)) else show_nat (nat i))"

text \<open>
  What the decimal text of a natural number is: digits only, no leading zero, and the
  value they denote.
\<close>

definition is_decimal :: "string \<Rightarrow> bool" where
  "is_decimal s =
     (s \<noteq> [] \<and> set s \<subseteq> set ''0123456789'' \<and> (length s = 1 \<or> hd s \<noteq> CHR ''0''))"

definition decimal_value :: "string \<Rightarrow> nat" where
  "decimal_value s = foldl (\<lambda>acc ch. 10 * acc + (of_char ch - 48)) 0 s"

text \<open>
  \<open>lastNum + 1\<close> and the conversion in \<open>msg.sender + '_' + currentNum\<close>. On a number they
  add (as doubles) and print the decimal digits (the form JavaScript uses below
  \<open>10 ^ 21\<close>, which covers every integer up to \<open>2 ^ 53\<close>); on anything else \<open>+\<close>
  concatenates text, an object reading \<open>[object Object]\<close>.
\<close>

fun js_toString :: "sval \<Rightarrow> string" where
  "js_toString (SNum n) = show_int n"
| "js_toString (SStr s) = s"
| "js_toString (SRequest r) = ''[object Object]''"
| "js_toString (SObject ps) = ''[object Object]''"

fun js_plus_1 :: "sval \<Rightarrow> sval" where
  "js_plus_1 (SNum n) = SNum (js_add n 1)"
| "js_plus_1 v = SStr (js_toString v @ ''1'')"

fun truthy :: "sval \<Rightarrow> bool" where
  "truthy (SNum n) = (n \<noteq> 0)"
| "truthy (SStr s) = (s \<noteq> [])"
| "truthy v = True"

text \<open>
  \<open>Object.prototype.hasOwnProperty.call(v, key)\<close>: a number has no property of its own,
  a string has \<open>length\<close> and its indices.
\<close>

fun hasOwnProperty :: "sval \<Rightarrow> string \<Rightarrow> bool" where
  "hasOwnProperty (SObject ps) key = (key \<in> set (map fst ps))"
| "hasOwnProperty (SRequest r) key = (key \<in> set [''path'', ''data'', ''options''])"
| "hasOwnProperty (SStr s) key = (key = ''length'' \<or> key \<in> set (map show_nat [0..<length s]))"
| "hasOwnProperty (SNum n) key = False"

subsection \<open>registerProvider\<close>

text \<open>
  \<open>_assignOptions\<close>: an option that is set and not empty is copied into the provider
  record; \<open>topics\<close> is written to the property \<open>encryptionPubKey\<close>, as in the source.
  The options are an object, kept as its properties.
\<close>

definition option_set :: "(string \<times> string) list \<Rightarrow> string \<Rightarrow> string option" where
  "option_set options key =
     (case map_of options key of
        None \<Rightarrow> None
      | Some v \<Rightarrow> if v \<noteq> [] then Some v else None)"

definition assignOptions :: "(string \<times> string) list \<Rightarrow> (string \<times> string) list \<Rightarrow> (string \<times> string) list" where
  "assignOptions p options =
     (let p1 = (case option_set options ''awardAddress'' of
                  None \<Rightarrow> p
                | Some v \<Rightarrow> AList.update ''awardAddress'' v p);
          p2 = (case option_set options ''encryptionPubKey'' of
                  None \<Rightarrow> p1
                | Some v \<Rightarrow> AList.update ''encryptionPubKey'' v p1);
          p3 = (case option_set options ''topics'' of
                  None \<Rightarrow> p2
                | Some v \<Rightarrow> AList.update ''encryptionPubKey'' v p2)
      in p3)"

text \<open>
  The contract's method \<open>registerProvider\<close>, with \<open>config.minProviderDeposit\<close> (the
  configuration module is not part of the sources) as the first parameter.
  \<open>_saveProviders(context, p)\<close> is \<open>context.setState(PROVIDERS_KEY, p)\<close>: what is stored
  under the providers' key is the record \<open>p\<close> of this provider, with the deposit as its
  decimal text.
\<close>

definition registerProvider ::
  "int \<Rightarrow> msg \<Rightarrow> gate_state \<Rightarrow> string option \<Rightarrow> (string \<times> string) list option
     \<Rightarrow> error + gate_state" where
  "registerProvider minProviderDeposit m gs providerAddr0 options0 =
     (let providerAddr = (case providerAddr0 of
                            None \<Rightarrow> msg_sender m
                          | Some a \<Rightarrow> if a \<noteq> [] then a else msg_sender m);
          options = (case options0 of None \<Rightarrow> [] | Some os \<Rightarrow> os)
      in if msg_value m < minProviderDeposit then
           Inl (Error (''Gate Provider must deposit at least '' @ show_int minProviderDeposit @ ''.''))
         else
           (let providers = getState gs PROVIDERS_KEY (SObject []) in
            if hasOwnProperty providers providerAddr then
              Inl (Error (''Provider '' @ providerAddr @ '' already exists.''))
            else
              (let p = assignOptions
                         [(''deposit'', show_int (msg_value m)), (''operator'', msg_sender m)]
                         options;
                   gs1 = setState gs PROVIDERS_KEY (SObject p)
               in Inr (emitEvent gs1 ''ProviderRegistered'' (ProviderData p) []))))"

subsection \<open>request\<close>

text \<open>
  \<open>if (path.path) { p = path.path; d = path.data } else { p = path; d = undefined }\<close>:
  a string has no property \<open>path\<close>, and an empty or missing \<open>path.path\<close> is falsy.
\<close>

fun splitPath :: "pathArg \<Rightarrow> pathArg \<times> string option" where
  "splitPath (PathString s) = (PathString s, None)"
| "splitPath (PathObject None d) = (PathObject None d, None)"
| "splitPath (PathObject (Some p) d) =
     (if p \<noteq> [] then (PathString p, d) else (PathObject (Some p) d, None))"

text \<open>
  The contract's method \<open>request\<close>. \<open>getContractInfo\<close> belongs to the runtime (not part
  of the sources) and throws the given message when the sender is not a contract; it is
  the test \<open>calledFromContract\<close> here. \<open>Object.assign({}, opts || {}, { requester: msg.sender })\<close>
  overwrites a \<open>requester\<close> among the caller's options and appends it otherwise.
  The result is the request id and the state after the call.
\<close>

definition request ::
  "(string \<Rightarrow> bool) \<Rightarrow> msg \<Rightarrow> gate_state \<Rightarrow> pathArg \<Rightarrow> (string \<times> string) list option
     \<Rightarrow> error + (string \<times> gate_state)" where
  "request calledFromContract m gs path opts =
     (if \<not> calledFromContract (msg_sender m) then
        Inl (Error ''This function must be called from a contract.'')
      else
        (let (p, d) = splitPath path;
             options = AList.update ''requester'' (msg_sender m)
                         (case opts of None \<Rightarrow> [] | Some os \<Rightarrow> os);
             requestData = \<lparr> rq_path = p, rq_data = d, rq_options = options \<rparr>;
             numKey = msg_sender m @ ''_c'';
             lastNum = getState gs numKey (SNum (- 1));
             currentNum = js_plus_1 lastNum;
             requestId = msg_sender m @ ''_'' @ js_toString currentNum;
             gs1 = setState gs numKey currentNum;
             gs2 = setState gs1 requestId (SRequest requestData);
             gs3 = emitEvent gs2 ''OffchainDataQuery'' (QueryData requestId p) [''path'']
         in Inr (requestId, gs3)))"

subsection \<open>setResult\<close>

text \<open>
  \<open>requestData.options.requester\<close> on a truthy stored value: the requester of a request
  (undefined when its options have none); a TypeError on a value without \<open>options\<close>;
  undefined on an object whose \<open>options\<close> is some text.
\<close>

fun requesterOf :: "sval \<Rightarrow> error + string option" where
  "requesterOf (SRequest r) = Inr (map_of (rq_options r) ''requester'')"
| "requesterOf (SObject ps) =
     (case map_of ps ''options'' of
        None \<Rightarrow> Inl (TypeError ''Cannot read property 'requester' of undefined'')
      | Some x \<Rightarrow> Inr None)"
| "requesterOf v = Inl (TypeError ''Cannot read property 'requester' of undefined'')"

text \<open>
  The contract's method \<open>setResult\<close>; \<open>this.getState(requestId)\<close> is undefined for a key
  that is not stored. The first argument stands for
  \<open>loadContract(requester).onOffchainData.invokeUpdate(requestId, requestData, result)\<close>,
  which runs the requester's contract (the runtime is not part of the sources): given the
  requester, the id, the stored request, the result and the gate's state, it throws, or
  returns a value and the state it leaves (the requester may call the gate again).
\<close>

definition setResult ::
  "(string option \<Rightarrow> string \<Rightarrow> sval \<Rightarrow> 'r \<Rightarrow> gate_state \<Rightarrow> error + ('a \<times> gate_state))
     \<Rightarrow> msg \<Rightarrow> gate_state \<Rightarrow> string \<Rightarrow> 'r \<Rightarrow> error + ('a \<times> gate_state)" where
  "setResult onOffchainData m gs requestId result =
     (let providers = getState gs PROVIDERS_KEY (SObject []) in
      if \<not> hasOwnProperty providers (msg_sender m) then
        Inl (Error (''Provider not registered: '' @ msg_sender m @ ''.''))
      else
        (case store gs requestId of
           None \<Rightarrow> Inl (Error (''Request '' @ requestId @ '' no longer exists.''))
         | Some requestData \<Rightarrow>
             if \<not> truthy requestData then
               Inl (Error (''Request '' @ requestId @ '' no longer exists.''))
             else
               (case requesterOf requestData of
                  Inl e \<Rightarrow> Inl e
                | Inr requester \<Rightarrow>
                    (case onOffchainData requester requestId requestData result gs of
                       Inl e \<Rightarrow> Inl e
                     | Inr (r, gs') \<Rightarrow> Inr (r, deleteState gs' requestId)))))"

section \<open>The message of a view call\<close>

text \<open>
  \<open>contextForView\<close> wraps the object \<open>{ name, params, sender: from, callType: 'view' }\<close>
  in a \<open>Proxy\<close> whose only trap is \<open>get\<close>. A property value is undefined, a string,
  an array, or a member inherited from \<open>Object.prototype\<close>.
\<close>

datatype jsval = Undefined | Str string | Arr "jsval list" | Inherited string

definition view_msg_target :: "string \<Rightarrow> jsval list \<Rightarrow> string option \<Rightarrow> (string \<times> jsval) list" where
  "view_msg_target fname params from_addr =
     [(''name'', Str fname),
      (''params'', Arr params),
      (''sender'', (case from_addr of None \<Rightarrow> Undefined | Some f \<Rightarrow> Str f)),
      (''callType'', Str ''view'')]"

text \<open>
  \<open>Object.keys(msg)\<close>: the proxy has no \<open>ownKeys\<close> trap, so these are the keys of the
  wrapped object.
\<close>

definition Object_keys :: "(string \<times> jsval) list \<Rightarrow> string list" where
  "Object_keys target = map fst target"

definition Object_prototype_members :: "string list" where
  "Object_prototype_members =
     [''constructor'', ''hasOwnProperty'', ''isPrototypeOf'', ''propertyIsEnumerable'',
      ''toLocaleString'', ''toString'', ''valueOf'', ''__proto__'', ''__defineGetter__'',
      ''__defineSetter__'', ''__lookupGetter__'', ''__lookupSetter__'']"

text \<open>\<open>Reflect.get(target, prop)\<close>: an own property, else an inherited one, else undefined.\<close>

definition Reflect_get :: "(string \<times> jsval) list \<Rightarrow> string \<Rightarrow> jsval" where
  "Reflect_get target prop =
     (case map_of target prop of
        Some v \<Rightarrow> v
      | None \<Rightarrow> if prop \<in> set Object_prototype_members then Inherited prop else Undefined)"

text \<open>
  The \<open>get\<close> trap:
  \<open>if (Object.keys(msg).includes(prop) && !['name', 'params', 'callType', 'sender'].includes(prop)) throw ...\<close>,
  then \<open>return Reflect.get(target, prop)\<close>.
\<close>

definition view_msg_get :: "(string \<times> jsval) list \<Rightarrow> string \<Rightarrow> error + jsval" where
  "view_msg_get target prop =
     (if prop \<in> set (Object_keys target) \<and>
         prop \<notin> set [''name'', ''params'', ''callType'', ''sender'']
      then Inl (Error (''Cannot access msg.'' @ prop @ '' when calling a @view function''))
      else Inr (Reflect_get target prop))"

text \<open>Reading \<open>msg.prop\<close> in the context that \<open>contextForView\<close> builds.\<close>

definition contextForView_msg_read ::
  "string \<Rightarrow> jsval list \<Rightarrow> string option \<Rightarrow> string \<Rightarrow> error + jsval" where
  "contextForView_msg_read fname params from_addr prop =
     view_msg_get (view_msg_target fname params from_addr) prop"

section \<open>The transaction pipeline\<close>

subsection \<open>Transactions and results\<close>

text \<open>
  A transaction as the pipeline reads it. \<open>Tx\<close> is a class of the library icetea-common:
  its methods \<open>isContractCreation\<close> and \<open>isContractCall\<close> test the operation of the
  payload, which is \<open>tx_op\<close> here. An undefined \<open>from\<close> or \<open>to\<close> is \<open>None\<close>; value and fee
  are BigInt.
\<close>

datatype txop = DeployContract | CallContract | PlainTransfer

record tx =
  tx_from :: "string option"
  tx_to :: "string option"
  tx_value :: int
  tx_fee :: int
  tx_signers :: "string list"
  tx_op :: txop
  tx_name :: string
  tx_params :: "string list"

definition isContractCreation :: "tx \<Rightarrow> bool" where
  "isContractCreation t = (tx_op t = DeployContract)"

definition isContractCall :: "tx \<Rightarrow> bool" where
  "isContractCall t = (tx_op t = CallContract)"

text \<open>Truthiness of an address: neither undefined nor the empty string.\<close>

definition addr_truthy :: "string option \<Rightarrow> bool" where
  "addr_truthy a = (case a of None \<Rightarrow> False | Some x \<Rightarrow> x \<noteq> [])"

text \<open>
  What an invocation returns: the array \<open>[value, tags]\<close>, and the property
  \<open>__gas_used\<close> when the invocation reports it.
\<close>

type_synonym tags = "(string \<times> string) list"

record result =
  r_value :: "string option"
  r_tags :: "tags option"
  r_gas_used :: "int option"

text \<open>The argument of \<open>refectTxValueAndFee\<close>: a transaction, or \<open>{ from, value, fee }\<close>.\<close>

record xfer =
  x_from :: "string option"
  x_to :: "string option"
  x_value :: int
  x_fee :: int

subsection \<open>The state manager and the other collaborators\<close>

text \<open>
  Modelled from the spec: the state manager (module \<open>statemanager\<close>, not part of the
  sources). The spec's Checkpoint Manager has a canonical account set; \<open>beginCheckpoint\<close>
  opens a scope and \<open>endCheckpoint\<close> closes it and notifies the observers, which
  \<open>addStateObserver\<close> registers for the events \<open>beginCheckpoint\<close> and \<open>endCheckpoint\<close>.
  The state is the canonical store, of any type, and the list of notifications sent.
\<close>

datatype hook = BeginCheckpoint | EndCheckpoint

record 's state =
  canonical :: 's
  hooks :: "hook list"

definition beginCheckpoint :: "'s state \<Rightarrow> 's state" where
  "beginCheckpoint st = st\<lparr> hooks := hooks st @ [BeginCheckpoint] \<rparr>"

definition endCheckpoint :: "'s state \<Rightarrow> 's state" where
  "endCheckpoint st = st\<lparr> hooks := hooks st @ [EndCheckpoint] \<rparr>"

text \<open>
  The functions the pipeline calls in modules that are not part of the sources, as
  parameters. \<open>'s\<close> is the canonical store, \<open>'d\<close> a draft (the \<open>stateAccess\<close>, \<open>patch\<close>
  and \<open>tools\<close> that \<open>produceDraft\<close> returns), \<open>'c\<close> a prepared contract.
  \<^item> A check that throws returns the error, or \<open>None\<close>; the checks read the store only
    (\<open>checkTx\<close> is documented not to modify state).
  \<^item> Modelled from the spec: \<open>produceDraft\<close> returns an overlay over the canonical set,
    \<open>applyDraft\<close> merges it, and the draft's tools and the invoker write to the draft
    only. An invocation throws, or returns its result and what it did to the draft;
    \<open>handleTransfer\<close> moves value and fee in the canonical store.
\<close>

record ('s, 'd, 'c) env =
  verifyTxSignature :: "tx \<Rightarrow> error option"
  Alias_ensureAddress :: "'s \<Rightarrow> string \<Rightarrow> error + string"
  validateAddress :: "string \<Rightarrow> error option"
  did_checkPermission :: "'s \<Rightarrow> string \<Rightarrow> string list \<Rightarrow> error option"
  balanceOf :: "'s \<Rightarrow> string \<Rightarrow> int"
  isContract :: "'s \<Rightarrow> string option \<Rightarrow> bool"
  isRegularContract :: "'s \<Rightarrow> string option \<Rightarrow> bool"
  getBlock :: "'s \<Rightarrow> blockinfo"
  handleTransfer :: "'s \<Rightarrow> tx \<Rightarrow> 's"
  produceDraft :: "'s \<Rightarrow> 'd"
  applyDraft :: "'s \<Rightarrow> 'd \<Rightarrow> 's"
  deployContract :: "'d \<Rightarrow> string option \<Rightarrow> 'c \<Rightarrow> string \<times> 'd"
  refectTxValueAndFee :: "'d \<Rightarrow> xfer \<Rightarrow> error + 'd"
  prepareContract :: "tx \<Rightarrow> error + 'c"
  invokeUpdate :: "blockinfo \<Rightarrow> 'd option \<Rightarrow> tx \<Rightarrow> string option \<Rightarrow> string \<Rightarrow> string list
                     \<Rightarrow> error + (result option \<times> ('d \<Rightarrow> 'd))"
  invokeTx :: "blockinfo \<Rightarrow> 'd option \<Rightarrow> tx \<Rightarrow> error + (result option \<times> ('d \<Rightarrow> 'd))"
  emitTransferred :: "tags option \<Rightarrow> string option \<Rightarrow> string option \<Rightarrow> int \<Rightarrow> tags"

subsection \<open>checkTx\<close>

text \<open>\<open>_ensureAddress\<close>: an address with a dot is an alias and is resolved.\<close>

definition ensureAddress :: "('s, 'd, 'c) env \<Rightarrow> 's \<Rightarrow> string \<Rightarrow> error + string" where
  "ensureAddress env s addr =
     (if addr \<noteq> [] \<and> CHR ''.'' \<in> set addr then Alias_ensureAddress env s addr else Inr addr)"

text \<open>The block \<open>if (tx.to) { ... } else { ... }\<close>: the transaction with \<open>to\<close> resolved.\<close>

definition check_destination :: "('s, 'd, 'c) env \<Rightarrow> 's \<Rightarrow> tx \<Rightarrow> error + tx" where
  "check_destination env s t =
     (case tx_to t of
        Some to_addr \<Rightarrow>
          (if to_addr \<noteq> [] then
             (case ensureAddress env s to_addr of
                Inl e \<Rightarrow> Inl e
              | Inr resolved \<Rightarrow>
                  (if CHR ''.'' \<in> set resolved then
                     (if take 7 resolved \<noteq> ''system.''
                      then Inl (Error (''Invalid destination alias '' @ resolved))
                      else Inr (t\<lparr> tx_to := Some resolved \<rparr>))
                   else
                     (case validateAddress env resolved of
                        Some e \<Rightarrow> Inl e
                      | None \<Rightarrow> Inr (t\<lparr> tx_to := Some resolved \<rparr>))))
           else if \<not> isContractCreation t
             then Inl (Error ''Transaction destination address is required.'')
             else Inr t)
      | None \<Rightarrow>
          (if \<not> isContractCreation t
           then Inl (Error ''Transaction destination address is required.'')
           else Inr t))"

text \<open>
  The block \<open>// ensure valid signers\<close> followed by \<open>tx.from = tx.from || tx.signers[0]\<close>:
  the sender, when the signers are acceptable.
\<close>

definition check_signers :: "tx \<Rightarrow> error + string" where
  "check_signers t =
     (case tx_signers t of
        [] \<Rightarrow> Inl (Error ''Must have at lease one signature.'')
      | [signer] \<Rightarrow>
          (if tx_from t = Some signer
           then Inl (Error ''No need to set 'from' to save blockchain data size.'')
           else Inr (case tx_from t of
                       None \<Rightarrow> signer
                     | Some f \<Rightarrow> if f \<noteq> [] then f else signer))
      | signer # others \<Rightarrow>
          (case tx_from t of
             None \<Rightarrow> Inl (Error ''Must explicitly set 'from' when there are more than 1 signer.'')
           | Some f \<Rightarrow>
               if f = [] then Inl (Error ''Must explicitly set 'from' when there are more than 1 signer.'')
               else Inr f))"

text \<open>\<open>tx.from || tx.signers[0]\<close>, the sender of a transaction (undefined without signers).\<close>

definition sender_of :: "tx \<Rightarrow> string option" where
  "sender_of t =
     (if addr_truthy (tx_from t) then tx_from t
      else (case tx_signers t of [] \<Rightarrow> None | signer # others \<Rightarrow> Some signer))"

text \<open>
  \<open>checkTx\<close> up to the permission check, then the balance check. The result is the
  transaction as \<open>checkTx\<close> leaves it, with \<open>to\<close> resolved and \<open>from\<close> filled in
  (\<open>checkTx_before_balance\<close> also gives that \<open>from\<close>).
\<close>

definition checkTx_before_balance :: "('s, 'd, 'c) env \<Rightarrow> 's \<Rightarrow> tx \<Rightarrow> error + (tx \<times> string)" where
  "checkTx_before_balance env s t =
     (case verifyTxSignature env t of
        Some e \<Rightarrow> Inl e
      | None \<Rightarrow>
          (case check_destination env s t of
             Inl e \<Rightarrow> Inl e
           | Inr t1 \<Rightarrow>
               (case check_signers t1 of
                  Inl e \<Rightarrow> Inl e
                | Inr from_addr \<Rightarrow>
                    (case did_checkPermission env s from_addr (tx_signers t1) of
                       Some e \<Rightarrow> Inl e
                     | None \<Rightarrow> Inr (t1\<lparr> tx_from := Some from_addr \<rparr>, from_addr)))))"

definition checkTx :: "('s, 'd, 'c) env \<Rightarrow> 's \<Rightarrow> tx \<Rightarrow> error + tx" where
  "checkTx env s t =
     (case checkTx_before_balance env s t of
        Inl e \<Rightarrow> Inl e
      | Inr (t2, from_addr) \<Rightarrow>
          if tx_value t2 + tx_fee t2 > balanceOf env s from_addr
          then Inl (Error ''Not enough balance'')
          else Inr t2)"

subsection \<open>execTx\<close>

definition willCallContract :: "('s, 'd, 'c) env \<Rightarrow> 's \<Rightarrow> tx \<Rightarrow> bool" where
  "willCallContract env s t =
     (isContractCreation t \<or> isContractCall t \<or> (tx_value t > 0 \<and> isContract env s (tx_to t)))"

definition reserved_names :: "string list" where
  "reserved_names =
     [''constructor'', ''__on_received'', ''__on_deployed'', ''getState'', ''setState'', ''getEnv'']"

definition xfer_of_tx :: "tx \<Rightarrow> xfer" where
  "xfer_of_tx t = \<lparr> x_from = tx_from t, x_to = tx_to t, x_value = tx_value t, x_fee = tx_fee t \<rparr>"

text \<open>
  The steps of \<open>doExecTx\<close>, each on the canonical store \<open>s\<close>, the draft \<open>d\<close> (\<open>None\<close> when
  \<open>execTx\<close> produced none, so that \<open>tools\<close> is \<open>{}\<close>) and the transaction.
  An exception ends the function; the canonical store is returned beside the outcome,
  since \<open>handleTransfer\<close> may have changed it by then.

  Step 1, \<open>if (tx.isContractCreation()) { ... }\<close>: without tools, \<open>tools.deployContract\<close>
  is not a function.
\<close>

definition step_deploy :: "('s, 'd, 'c) env \<Rightarrow> 'd option \<Rightarrow> tx \<Rightarrow> error + (tx \<times> 'd option)" where
  "step_deploy env d t =
     (if isContractCreation t then
        (case prepareContract env t of
           Inl e \<Rightarrow> Inl e
         | Inr contractState \<Rightarrow>
             (case d of
                None \<Rightarrow> Inl (TypeError ''tools.deployContract is not a function'')
              | Some dr \<Rightarrow>
                  (let (addr, dr') = deployContract env dr (tx_from t) contractState
                   in Inr (t\<lparr> tx_to := Some addr \<rparr>, Some dr'))))
      else Inr (t, d))"

text \<open>Step 2, \<open>(tools.refectTxValueAndFee || stateManager.handleTransfer)(tx)\<close>.\<close>

definition step_transfer ::
  "('s, 'd, 'c) env \<Rightarrow> 's \<Rightarrow> 'd option \<Rightarrow> tx \<Rightarrow> error + ('s \<times> 'd option)" where
  "step_transfer env s d t =
     (case d of
        Some dr \<Rightarrow>
          (case refectTxValueAndFee env dr (xfer_of_tx t) of
             Inl e \<Rightarrow> Inl e
           | Inr dr' \<Rightarrow> Inr (s, Some dr'))
      | None \<Rightarrow> Inr (handleTransfer env s t, None))"

text \<open>
  Step 3, the constructor hook or the call. \<open>result[0] = tx.to\<close> raises a TypeError
  when the hook returned undefined.
\<close>

definition step_invoke ::
  "('s, 'd, 'c) env \<Rightarrow> 's \<Rightarrow> 'd option \<Rightarrow> tx \<Rightarrow> error + (result option \<times> 'd option)" where
  "step_invoke env s d t =
     (if isContractCreation t then
        (case invokeUpdate env (getBlock env s) d t (tx_to t) ''__on_deployed'' (tx_params t) of
           Inl e \<Rightarrow> Inl e
         | Inr (None, f) \<Rightarrow> Inl (TypeError ''Cannot set property 0 of undefined'')
         | Inr (Some r, f) \<Rightarrow> Inr (Some (r\<lparr> r_value := tx_to t \<rparr>), map_option f d))
      else if isContractCall t then
        (if tx_name t \<in> set reserved_names then
           Inl (Error ''Calling this method directly is not allowed'')
         else
           (case invokeTx env (getBlock env s) d t of
              Inl e \<Rightarrow> Inl e
            | Inr (r, f) \<Rightarrow> Inr (r, map_option f d)))
      else Inr (None, d))"

text \<open>Step 4, \<open>// call __on_received\<close>; a BigInt is truthy when it is not zero.\<close>

definition step_received ::
  "('s, 'd, 'c) env \<Rightarrow> 's \<Rightarrow> 'd option \<Rightarrow> tx \<Rightarrow> result option
     \<Rightarrow> error + (result option \<times> 'd option)" where
  "step_received env s d t res =
     (if tx_value t \<noteq> 0 \<and> isRegularContract env s (tx_to t) \<and>
         \<not> isContractCreation t \<and> \<not> isContractCall t then
        (case invokeUpdate env (getBlock env s) d t (tx_to t) ''__on_received'' (tx_params t) of
           Inl e \<Rightarrow> Inl e
         | Inr (r, f) \<Rightarrow> Inr (r, map_option f d))
      else Inr (res, d))"

text \<open>
  Step 5, the refund \<open>if (result && result.__gas_used && tools.refectTxValueAndFee)\<close>.
\<close>

definition step_refund ::
  "('s, 'd, 'c) env \<Rightarrow> 'd option \<Rightarrow> tx \<Rightarrow> result option \<Rightarrow> error + (result option \<times> 'd option)" where
  "step_refund env d t res =
     (case (res, d) of
        (Some r, Some dr) \<Rightarrow>
          (case r_gas_used r of
             None \<Rightarrow> Inr (res, d)
           | Some g \<Rightarrow>
               if g = 0 then Inr (res, d)
               else
                 (case refectTxValueAndFee env dr
                         \<lparr> x_from = tx_from t, x_to = None, x_value = 0, x_fee = - (tx_fee t - g) \<rparr> of
                    Inl e \<Rightarrow> Inl e
                  | Inr dr' \<Rightarrow> Inr (Some (r\<lparr> r_gas_used := None \<rparr>), Some dr')))
      | other \<Rightarrow> Inr (res, d))"

text \<open>
  Step 6, \<open>// emit Transferred event\<close>. With a result, \<open>emitTransferred(result[1])\<close>
  writes into the tags object of the result, and into nothing when \<open>result[1]\<close> is
  undefined; without one, the result becomes \<open>[undefined, emitTransferred()]\<close>.
\<close>

definition step_transferred :: "('s, 'd, 'c) env \<Rightarrow> tx \<Rightarrow> result option \<Rightarrow> result option" where
  "step_transferred env t res =
     (if tx_value t > 0 then
        (case res of
           Some r \<Rightarrow>
             (case r_tags r of
                Some tg \<Rightarrow>
                  Some (r\<lparr> r_tags := Some (emitTransferred env (Some tg) (tx_from t) (tx_to t) (tx_value t)) \<rparr>)
              | None \<Rightarrow> Some r)
         | None \<Rightarrow>
             Some \<lparr> r_value = None,
                    r_tags = Some (emitTransferred env None (tx_from t) (tx_to t) (tx_value t)),
                    r_gas_used = None \<rparr>)
      else res)"

text \<open>\<open>doExecTx\<close>: the outcome, and the canonical store as the function leaves it.\<close>

definition doExecTx ::
  "('s, 'd, 'c) env \<Rightarrow> 's \<Rightarrow> 'd option \<Rightarrow> tx
     \<Rightarrow> (error + (result option \<times> 'd option)) \<times> 's" where
  "doExecTx env s d t0 =
     (case step_deploy env d t0 of
        Inl e \<Rightarrow> (Inl e, s)
      | Inr (t, d1) \<Rightarrow>
          (case step_transfer env s d1 t of
             Inl e \<Rightarrow> (Inl e, s)
           | Inr (s1, d2) \<Rightarrow>
               (case step_invoke env s1 d2 t of
                  Inl e \<Rightarrow> (Inl e, s1)
                | Inr (res1, d3) \<Rightarrow>
                    (case step_received env s1 d3 t res1 of
                       Inl e \<Rightarrow> (Inl e, s1)
                     | Inr (res2, d4) \<Rightarrow>
                         (case step_refund env d4 t res2 of
                            Inl e \<Rightarrow> (Inl e, s1)
                          | Inr (res3, d5) \<Rightarrow>
                              (Inr (step_transferred env t res3, d5), s1))))))"

text \<open>\<open>result || []\<close>.\<close>

definition result_or_empty :: "result option \<Rightarrow> result" where
  "result_or_empty res =
     (case res of
        None \<Rightarrow> \<lparr> r_value = None, r_tags = None, r_gas_used = None \<rparr>
      | Some r \<Rightarrow> r)"

text \<open>\<open>needState ? stateManager.produceDraft() : {}\<close>.\<close>

definition draft_for :: "('s, 'd, 'c) env \<Rightarrow> 's \<Rightarrow> tx \<Rightarrow> 'd option" where
  "draft_for env s t = (if willCallContract env s t then Some (produceDraft env s) else None)"

text \<open>
  \<open>execTx\<close>: what it returns or throws, and the state it leaves. An exception of
  \<open>checkTx\<close> or of \<open>doExecTx\<close> leaves the function at once; there is no handler.
  \<open>applyDraft(patch)\<close> merges the draft as \<open>doExecTx\<close> left it.
\<close>

definition execTx :: "('s, 'd, 'c) env \<Rightarrow> 's state \<Rightarrow> tx \<Rightarrow> (error + result) \<times> 's state" where
  "execTx env st t0 =
     (case checkTx env (canonical st) t0 of
        Inl e \<Rightarrow> (Inl e, st)
      | Inr t \<Rightarrow>
          (let st1 = beginCheckpoint st;
               needState = willCallContract env (canonical st1) t;
               d = draft_for env (canonical st1) t
           in case doExecTx env (canonical st1) d t of
                (Inl e, s') \<Rightarrow> (Inl e, st1\<lparr> canonical := s' \<rparr>)
              | (Inr (res, d'), s') \<Rightarrow>
                  (let st2 = st1\<lparr> canonical := s' \<rparr>;
                       st3 = (if needState then
                                (case d' of
                                   Some patch \<Rightarrow> st2\<lparr> canonical := applyDraft env (canonical st2) patch \<rparr>
                                 | None \<Rightarrow> st2)
                              else st2);
                       st4 = endCheckpoint st3
                   in (Inr (result_or_empty res), st4))))"

section \<open>Example data\<close>

definition ex_candidate :: candidate where
  "ex_candidate =
     \<lparr> deposit = 500, block = 3, operator = ''op'', name = ''alice'', voters = None,
       jailed = True, jailedUntilBlock = Some 120, slashed = None \<rparr>"

definition ex_storage :: storage where
  "ex_storage = \<lparr> st_candidates = Some [(''pk'', ex_candidate)], st_withdraw = None \<rparr>"

text \<open>
  The same storage after \<open>punish\<close> at block 100 with the rate 250000 and 5 blocks of
  jail: the deposit 500 has become \<open>500 - 2000\<close>.
\<close>

definition ex_storage_slashed :: storage where
  "ex_storage_slashed =
     \<lparr> st_candidates = Some
         [(''pk'', ex_candidate\<lparr> slashed := Some 2000, deposit := - 1500, jailed := True,
                                 jailedUntilBlock := Some 125 \<rparr>)],
       st_withdraw = None \<rparr>"

text \<open>Four candidates for the ranking: a jailed one, and two that tie on capacity.\<close>

definition mk_candidate :: "int \<Rightarrow> int \<Rightarrow> (string \<times> int) list option \<Rightarrow> bool \<Rightarrow> candidate" where
  "mk_candidate d b vs j =
     \<lparr> deposit = d, block = b, operator = ''op'', name = ''n'', voters = vs,
       jailed = j, jailedUntilBlock = None, slashed = None \<rparr>"


text \<open>A candidate with two voters, its operator's message, and a Did check that lets it pass.\<close>

definition ex_resigning :: storage where
  "ex_resigning =
     \<lparr> st_candidates = Some
         [(''pk'', mk_candidate 100 2 (Some [(''v1'', 30), (''v2'', 12)]) False)],
       st_withdraw = None \<rparr>"

definition ex_msg :: msg where
  "ex_msg = \<lparr> msg_sender = ''op'', msg_signers = [''op''], msg_value = 0 \<rparr>"

definition ex_block :: blockinfo where
  "ex_block = \<lparr> blk_number = 50, blk_timestamp = 1000 \<rparr>"

definition permit_all :: "string \<Rightarrow> string list \<Rightarrow> int \<Rightarrow> error option" where
  "permit_all address signers timestamp = None"

text \<open>
  The gate from its empty state: \<open>P\<close> registers as a provider with a deposit of 100
  (the minimum being 10), then the contract \<open>R\<close> requests \<open>price\<close>. The requester's
  callback returns the result it is given.
\<close>

definition ex_gate_empty :: gate_state where
  "ex_gate_empty = \<lparr> store = Map.empty, events = [] \<rparr>"

definition ex_registering_msg :: msg where
  "ex_registering_msg = \<lparr> msg_sender = ''P'', msg_signers = [''P''], msg_value = 100 \<rparr>"

definition ex_provider_record :: "(string \<times> string) list" where
  "ex_provider_record = [(''deposit'', ''100''), (''operator'', ''P'')]"

definition ex_gate_registered :: gate_state where
  "ex_gate_registered =
     \<lparr> store = [PROVIDERS_KEY \<mapsto> SObject ex_provider_record],
       events = [\<lparr> ev_name = ''ProviderRegistered'', ev_data = ProviderData ex_provider_record,
                   ev_indexes = [] \<rparr>] \<rparr>"

definition ex_request :: requestData where
  "ex_request = \<lparr> rq_path = PathString ''price'', rq_data = None,
                  rq_options = [(''requester'', ''R'')] \<rparr>"

definition ex_gate_requested :: gate_state where
  "ex_gate_requested =
     \<lparr> store = [PROVIDERS_KEY \<mapsto> SObject ex_provider_record,
                ''R_c'' \<mapsto> SNum 0,
                ''R_0'' \<mapsto> SRequest ex_request],
       events = [\<lparr> ev_name = ''ProviderRegistered'', ev_data = ProviderData ex_provider_record,
                   ev_indexes = [] \<rparr>,
                 \<lparr> ev_name = ''OffchainDataQuery'',
                   ev_data = QueryData ''R_0'' (PathString ''price''),
                   ev_indexes = [''path''] \<rparr>] \<rparr>"

text \<open>A gate state in which the counter of \<open>R\<close> has reached \<open>2 ^ 53\<close>.\<close>

definition ex_gate_saturated :: gate_state where
  "ex_gate_saturated = \<lparr> store = [''R_c'' \<mapsto> SNum 9007199254740992], events = [] \<rparr>"

definition ex_requester_msg :: msg where
  "ex_requester_msg = \<lparr> msg_sender = ''R'', msg_signers = [''R''], msg_value = 0 \<rparr>"

definition ex_provider_msg :: msg where
  "ex_provider_msg = \<lparr> msg_sender = ''P'', msg_signers = [''P''], msg_value = 0 \<rparr>"

definition ex_callback ::
  "string option \<Rightarrow> string \<Rightarrow> sval \<Rightarrow> string \<Rightarrow> gate_state \<Rightarrow> error + (string \<times> gate_state)" where
  "ex_callback requester rid rd res gs = Inr (res, gs)"

definition every_sender_is_contract :: "string \<Rightarrow> bool" where
  "every_sender_is_contract a = True"

text \<open>
  A small instance of the collaborators: the store and a draft are balances by address,
  a draft is a copy of the store and applying it replaces the store; every check passes;
  \<open>contract1\<close> is the only contract; invocations return an empty result.
\<close>

definition ex_balanceOf :: "(string \<times> int) list \<Rightarrow> string \<Rightarrow> int" where
  "ex_balanceOf s a = (case map_of s a of None \<Rightarrow> 0 | Some b \<Rightarrow> b)"

definition ex_move :: "(string \<times> int) list \<Rightarrow> xfer \<Rightarrow> (string \<times> int) list" where
  "ex_move s x =
     (let s1 = (case x_from x of
                  None \<Rightarrow> s
                | Some f \<Rightarrow> AList.update f (ex_balanceOf s f - (x_value x + x_fee x)) s)
      in case x_to x of
           None \<Rightarrow> s1
         | Some r \<Rightarrow> AList.update r (ex_balanceOf s1 r + x_value x) s1)"

definition ex_result :: result where
  "ex_result = \<lparr> r_value = None, r_tags = Some [], r_gas_used = None \<rparr>"

definition ex_env :: "((string \<times> int) list, (string \<times> int) list, unit) env" where
  "ex_env =
     \<lparr> verifyTxSignature = (\<lambda>t. None),
       Alias_ensureAddress = (\<lambda>s a. Inr a),
       validateAddress = (\<lambda>a. None),
       did_checkPermission = (\<lambda>s a signers. None),
       balanceOf = ex_balanceOf,
       isContract = (\<lambda>s a. a = Some ''contract1''),
       isRegularContract = (\<lambda>s a. a = Some ''contract1''),
       getBlock = (\<lambda>s. ex_block),
       handleTransfer = (\<lambda>s t. ex_move s (xfer_of_tx t)),
       produceDraft = (\<lambda>s. s),
       applyDraft = (\<lambda>s d. d),
       deployContract = (\<lambda>d f c. (''contract2'', d)),
       refectTxValueAndFee = (\<lambda>d x. Inr (ex_move d x)),
       prepareContract = (\<lambda>t. Inr ()),
       invokeUpdate = (\<lambda>b d t to_addr n ps. Inr (Some ex_result, id)),
       invokeTx = (\<lambda>b d t. Inr (Some ex_result, id)),
       emitTransferred = (\<lambda>tg f to_addr v. (case tg of None \<Rightarrow> [] | Some x \<Rightarrow> x) @ [(''event'', ''Transferred'')]) \<rparr>"

definition ex_state :: "(string \<times> int) list state" where
  "ex_state = \<lparr> canonical = [(''alice'', 100), (''contract1'', 0)], hooks = [] \<rparr>"

text \<open>
  Three transactions signed by \<open>alice\<close>, who holds 100: a transfer of 200, a transfer of
  5 to \<open>bob\<close>, and a call of the reserved method \<open>constructor\<close> of \<open>contract1\<close>.
\<close>

definition ex_overdraft :: tx where
  "ex_overdraft =
     \<lparr> tx_from = None, tx_to = Some ''bob'', tx_value = 200, tx_fee = 1, tx_signers = [''alice''],
       tx_op = PlainTransfer, tx_name = [], tx_params = [] \<rparr>"

definition ex_transfer :: tx where
  "ex_transfer =
     \<lparr> tx_from = None, tx_to = Some ''bob'', tx_value = 5, tx_fee = 1, tx_signers = [''alice''],
       tx_op = PlainTransfer, tx_name = [], tx_params = [] \<rparr>"

definition ex_reserved_call :: tx where
  "ex_reserved_call =
     \<lparr> tx_from = None, tx_to = Some ''contract1'', tx_value = 5, tx_fee = 1, tx_signers = [''alice''],
       tx_op = CallContract, tx_name = ''constructor'', tx_params = [] \<rparr>"

section \<open>Properties of the numbers\<close>

text \<open>Sums and differences up to \<open>2 ^ 53\<close> in magnitude are exact; beyond that they are not.\<close>

lemma js_add_exact: "\<bar>a + b\<bar> \<le> 2 ^ 53 \<Longrightarrow> js_add a b = a + b"
  by (simp add: js_add_def round_double_def Let_def)

lemma js_sub_exact: "\<bar>a - b\<bar> \<le> 2 ^ 53 \<Longrightarrow> js_sub a b = a - b"
  by (simp add: js_sub_def round_double_def Let_def)

lemma js_add_saturates: "js_add 9007199254740992 1 = 9007199254740992"
  by (simp add: js_add_def round_double_def Let_def bit_length.simps)

lemma js_add_rounds_to_even: "js_add 9007199254740992 3 = 9007199254740996"
  by (simp add: js_add_def round_double_def Let_def bit_length.simps)

section \<open>Properties of punish\<close>

lemma slashedAmount_nonneg_div:
  "0 \<le> d \<Longrightarrow> 0 < r \<Longrightarrow> slashedAmount d r = d * 1000000 div r"
  by (simp add: slashedAmount_def MILLION_def signed_divide_int_def sgn_if)

lemma slashedAmount_neg_div:
  "d < 0 \<Longrightarrow> 0 < r \<Longrightarrow> slashedAmount d r = - ((- d) * 1000000 div r)"
  by (simp add: slashedAmount_def MILLION_def signed_divide_int_def sgn_if)

lemma slashedAmount_antimono:
  assumes "0 \<le> d" "0 < r1" "r1 \<le> r2"
  shows "slashedAmount d r2 \<le> slashedAmount d r1"
proof -
  have "d * 1000000 div r2 \<le> d * 1000000 div r1"
    using assms by (intro zdiv_mono2) auto
  then show ?thesis
    using assms by (simp add: slashedAmount_nonneg_div)
qed

text \<open>For a negative deposit the order is the other way round.\<close>

lemma slashedAmount_mono_neg:
  assumes "d < 0" "0 < r1" "r1 \<le> r2"
  shows "slashedAmount d r1 \<le> slashedAmount d r2"
proof -
  have "(- d) * 1000000 div r2 \<le> (- d) * 1000000 div r1"
    using assms by (intro zdiv_mono2) auto
  then show ?thesis
    using assms by (simp add: slashedAmount_neg_div)
qed

text \<open>A rate of at most a million slashes at least the whole deposit.\<close>

lemma slashedAmount_ge_deposit:
  assumes "0 \<le> d" "0 < r" "r \<le> MILLION"
  shows "d \<le> slashedAmount d r"
proof -
  have "d * r \<le> d * 1000000"
    using assms by (intro mult_left_mono) (simp_all add: MILLION_def)
  then have "d * r div r \<le> d * 1000000 div r"
    using assms by (intro zdiv_mono1) simp_all
  then show ?thesis
    using assms by (simp add: slashedAmount_nonneg_div)
qed

lemma punish_Inr_cases:
  assumes "punish sto pubkey blockNum rate cnt = Inr st'"
  obtains r n c where
    "dflt0 rate = JInt r" "0 < r" "r \<le> MILLION" "dflt0 cnt = JInt n" "0 < n"
    "map_of (candidatesOf sto) pubkey = Some c"
    "st' = (storageOr sto)\<lparr> st_candidates :=
             Some (AList.update pubkey (jail blockNum n (slash r c)) (candidatesOf sto)) \<rparr>"
proof -
  from assms have v: "\<not> invalidRate (dflt0 rate)" "\<not> invalidCount (dflt0 cnt)"
      "\<not> isZero (dflt0 rate)" "\<not> isZero (dflt0 cnt)"
    by (auto simp: punish_def Let_def split: if_splits)
  from v obtain r where r: "dflt0 rate = JInt r" "0 < r" "r \<le> MILLION"
    by (cases "dflt0 rate") auto
  from v obtain n where n: "dflt0 cnt = JInt n" "0 < n"
    by (cases "dflt0 cnt") auto
  from assms v r n obtain c where c: "map_of (candidatesOf sto) pubkey = Some c"
    by (auto simp: punish_def Let_def split: option.splits)
  with assms v r n
  have "st' = (storageOr sto)\<lparr> st_candidates :=
             Some (AList.update pubkey (jail blockNum n (slash r c)) (candidatesOf sto)) \<rparr>"
    by (simp add: punish_def Let_def)
  with r n c show thesis by (rule that)
qed

lemma candidatesOf_updated:
  "map_of (candidatesOf (Some (st\<lparr> st_candidates := Some (AList.update k v cs) \<rparr>))) k = Some v"
  by (simp add: candidatesOf_def update_conv')

lemma ex_storage_punished:
  "punish (Some ex_storage) ''pk'' 100 (JInt 250000) (JInt 5) = Inr ex_storage_slashed"
  by (simp add: punish_def candidatesOf_def storageOr_def ex_storage_def ex_storage_slashed_def
      ex_candidate_def MILLION_def jail_def slash_def slashedAmount_def pendingJailedBlock_def
      js_add_exact js_sub_exact signed_divide_int_def)

text \<open>
  A smaller rate does not always slash more. One call of \<open>punish\<close> with the rate 250000
  turns the deposit 500 into \<open>- 1500\<close>. On that candidate the rate 250000 slashes
  \<open>- 6000\<close> and the larger rate 1000000 slashes \<open>- 1500\<close>, which is more: the slashed
  total goes from 2000 to \<open>- 4000\<close> with the smaller rate and to 500 with the larger.
\<close>

theorem punish_smaller_rate_slashes_less_on_negative_deposit:
  "punish (Some ex_storage) ''pk'' 100 (JInt 250000) (JInt 5) = Inr ex_storage_slashed \<and>
   map_option deposit (map_of (candidatesOf (Some ex_storage_slashed)) ''pk'') = Some (- 1500) \<and>
   slashedAmount (- 1500) 250000 = - 6000 \<and>
   slashedAmount (- 1500) 1000000 = - 1500 \<and>
   slashedAmount (- 1500) 250000 < slashedAmount (- 1500) 1000000 \<and>
   map_option slashed (map_of (candidatesOf (punish_result_storage
      (punish (Some ex_storage_slashed) ''pk'' 100 (JInt 250000) (JInt 5)))) ''pk'')
     = Some (Some (- 4000)) \<and>
   map_option slashed (map_of (candidatesOf (punish_result_storage
      (punish (Some ex_storage_slashed) ''pk'' 100 (JInt 1000000) (JInt 5)))) ''pk'')
     = Some (Some 500)"
  by (simp add: ex_storage_punished)
     (simp add: punish_def candidatesOf_def storageOr_def ex_storage_slashed_def
      ex_candidate_def MILLION_def jail_def slash_def slashedAmount_def pendingJailedBlock_def
      js_add_exact js_sub_exact signed_divide_int_def punish_result_storage_def)

text \<open>
  C4, as the code has it. A punish call that succeeds with
  \<open>slashedRatePerMillion = r > 0\<close> on a stored candidate slashes
  \<open>deposit * 1000000 / r\<close>, in integer arithmetic rounding towards zero: the amount is
  taken from the deposit and added to the slashed total (an undefined total counting as
  0). For a deposit that is not negative this is plain integer division, the amount is
  at least the deposit (so the deposit that is left is not positive), and any smaller
  positive rate slashes at least as much. For a negative deposit any smaller positive
  rate slashes at most as much.
\<close>

theorem punish_slashes_deposit_times_million_over_rate:
  assumes ok: "punish sto pubkey blockNum (JInt r) cnt = Inr st'"
      and pos: "0 < r"
      and cand: "map_of (candidatesOf sto) pubkey = Some c"
  shows "\<exists>c'. map_of (candidatesOf (Some st')) pubkey = Some c' \<and>
           deposit c' = deposit c - (deposit c * 1000000) sdiv r \<and>
           slashed c' = Some ((case slashed c of None \<Rightarrow> 0 | Some s \<Rightarrow> s)
                              + (deposit c * 1000000) sdiv r) \<and>
           (0 \<le> deposit c \<longrightarrow>
              (deposit c * 1000000) sdiv r = deposit c * 1000000 div r \<and>
              deposit c' \<le> 0 \<and>
              (\<forall>r'. 0 < r' \<and> r' \<le> r \<longrightarrow>
                 slashedAmount (deposit c) r \<le> slashedAmount (deposit c) r')) \<and>
           (deposit c < 0 \<longrightarrow>
              (\<forall>r'. 0 < r' \<and> r' \<le> r \<longrightarrow>
                 slashedAmount (deposit c) r' \<le> slashedAmount (deposit c) r))"
proof -
  from ok obtain r0 n c0 where
    h: "dflt0 (JInt r) = JInt r0" "r0 \<le> MILLION" "0 < n"
       "map_of (candidatesOf sto) pubkey = Some c0"
       "st' = (storageOr sto)\<lparr> st_candidates :=
                Some (AList.update pubkey (jail blockNum n (slash r0 c0)) (candidatesOf sto)) \<rparr>"
    by (rule punish_Inr_cases)
  from h cand have eq: "r0 = r" "c0 = c" by simp_all
  let ?c' = "jail blockNum n (slash r c)"
  have 1: "map_of (candidatesOf (Some st')) pubkey = Some ?c'"
    unfolding h(5) eq by (rule candidatesOf_updated)
  have 2: "deposit ?c' = deposit c - (deposit c * 1000000) sdiv r"
    using pos h(3) by (simp add: jail_def slash_def slashedAmount_def MILLION_def Let_def)
  have 3: "slashed ?c' = Some ((case slashed c of None \<Rightarrow> 0 | Some s \<Rightarrow> s)
                              + (deposit c * 1000000) sdiv r)"
    using pos h(3) by (simp add: jail_def slash_def slashedAmount_def MILLION_def Let_def)
  have 4: "0 \<le> deposit c \<longrightarrow>
              (deposit c * 1000000) sdiv r = deposit c * 1000000 div r \<and>
              deposit ?c' \<le> 0 \<and>
              (\<forall>r'. 0 < r' \<and> r' \<le> r \<longrightarrow>
                 slashedAmount (deposit c) r \<le> slashedAmount (deposit c) r')"
  proof
    assume d: "0 \<le> deposit c"
    have a: "(deposit c * 1000000) sdiv r = deposit c * 1000000 div r"
      using d pos slashedAmount_nonneg_div [of "deposit c" r]
      by (simp add: slashedAmount_def MILLION_def)
    have "deposit c \<le> slashedAmount (deposit c) r"
      using d pos h(2) eq by (intro slashedAmount_ge_deposit) simp_all
    then have b: "deposit ?c' \<le> 0"
      using 2 by (simp add: slashedAmount_def MILLION_def)
    have c: "\<forall>r'. 0 < r' \<and> r' \<le> r \<longrightarrow>
                 slashedAmount (deposit c) r \<le> slashedAmount (deposit c) r'"
      using d slashedAmount_antimono [of "deposit c" _ r] by blast
    from a b c show "(deposit c * 1000000) sdiv r = deposit c * 1000000 div r \<and>
              deposit ?c' \<le> 0 \<and>
              (\<forall>r'. 0 < r' \<and> r' \<le> r \<longrightarrow>
                 slashedAmount (deposit c) r \<le> slashedAmount (deposit c) r')"
      by blast
  qed
  have 5: "deposit c < 0 \<longrightarrow>
              (\<forall>r'. 0 < r' \<and> r' \<le> r \<longrightarrow>
                 slashedAmount (deposit c) r' \<le> slashedAmount (deposit c) r)"
    using slashedAmount_mono_neg [of "deposit c" _ r] by blast
  from 1 2 3 4 5 show ?thesis by blast
qed

theorem punish_slashes_deposit_times_million_over_rate_witness:
  "punish (Some ex_storage) ''pk'' 100 (JInt 250000) (JInt 5) = Inr ex_storage_slashed \<and>
   (\<exists>c'. map_of (candidatesOf (Some ex_storage_slashed)) ''pk'' = Some c' \<and>
         deposit c' = - 1500 \<and> slashed c' = Some 2000)"
proof -
  have cand: "map_of (candidatesOf (Some ex_storage)) ''pk'' = Some ex_candidate"
    by (simp add: candidatesOf_def ex_storage_def)
  have pos: "(0::int) < 250000" by simp
  have v: "(deposit ex_candidate * 1000000) sdiv 250000 = 2000" "slashed ex_candidate = None"
          "deposit ex_candidate = 500"
    by (simp_all add: ex_candidate_def signed_divide_int_def)
  from punish_slashes_deposit_times_million_over_rate [OF ex_storage_punished pos cand]
  obtain c' where "map_of (candidatesOf (Some ex_storage_slashed)) ''pk'' = Some c'"
    "deposit c' = deposit ex_candidate - (deposit ex_candidate * 1000000) sdiv 250000"
    "slashed c' = Some ((case slashed ex_candidate of None \<Rightarrow> 0 | Some s \<Rightarrow> s)
                              + (deposit ex_candidate * 1000000) sdiv 250000)"
    by blast
  then have "map_of (candidatesOf (Some ex_storage_slashed)) ''pk'' = Some c' \<and>
         deposit c' = - 1500 \<and> slashed c' = Some 2000"
    by (simp add: v)
  with ex_storage_punished show ?thesis by blast
qed

text \<open>
  C5. With \<open>slashedRatePerMillion = 0\<close> and \<open>jailedBlockCount = 5\<close>, both in range and one
  of them nonzero, validation rejects the call: the test is
  \<open>slashedRatePerMillion === 0 || jailedBlockCount === 0\<close>. The same happens when the
  rate is left out and when only the jail count is zero.
\<close>

theorem punish_rejects_when_only_one_is_zero:
  "punish (Some ex_storage) ''pk'' 100 (JInt 0) (JInt 5) =
     Inl (Error ''Either slashedRate or jailedBlockCount must be specified.'') \<and>
   punish (Some ex_storage) ''pk'' 100 JUndefined (JInt 5) =
     Inl (Error ''Either slashedRate or jailedBlockCount must be specified.'') \<and>
   punish (Some ex_storage) ''pk'' 100 (JInt 1000) (JInt 0) =
     Inl (Error ''Either slashedRate or jailedBlockCount must be specified.'')"
  by (simp add: punish_def MILLION_def)

text \<open>
  A call that only jails, with the rate zero or left out, is rejected by the same test,
  whatever the storage, the candidate, the block number and the count.
\<close>

lemma punish_jail_only_throws:
  "slashedRatePerMillion = JInt 0 \<or> slashedRatePerMillion = JUndefined \<Longrightarrow>
   \<exists>e. punish sto pubkey blockNum slashedRatePerMillion jailedBlockCount = Inl e"
  by (auto simp: punish_def Let_def MILLION_def)

text \<open>
  C6. The stored candidate is jailed until block 120. At block 100, which is before 120,
  \<open>punish\<close> with \<open>jailedBlockCount = 5\<close> and no rate (or the rate 0) throws
  \<open>Either slashedRate or jailedBlockCount must be specified.\<close>: nothing is written, and
  the candidate stays jailed until block 120, not 125.
\<close>

theorem punish_jail_only_leaves_jailedUntilBlock:
  "map_option jailedUntilBlock (map_of (candidatesOf (Some ex_storage)) ''pk'') = Some (Some 120) \<and>
   punish (Some ex_storage) ''pk'' 100 JUndefined (JInt 5) =
     Inl (Error ''Either slashedRate or jailedBlockCount must be specified.'') \<and>
   punish (Some ex_storage) ''pk'' 100 (JInt 0) (JInt 5) =
     Inl (Error ''Either slashedRate or jailedBlockCount must be specified.'') \<and>
   punish_result_storage (punish (Some ex_storage) ''pk'' 100 JUndefined (JInt 5)) = None"
  by (simp add: punish_def MILLION_def punish_result_storage_def candidatesOf_def ex_storage_def
      ex_candidate_def)

text \<open>
  When the call also slashes, and so passes the validation, the jail is extended as
  intended, as long as the sums stay within \<open>2 ^ 53\<close>: from a pending limit \<open>u\<close> after
  \<open>blockNum\<close> to \<open>blockNum + (u - blockNum) + cnt = u + cnt\<close>, and otherwise to
  \<open>blockNum + cnt\<close>.
\<close>

lemma punish_extends_pending_jail_when_it_slashes:
  assumes ok: "punish sto pubkey blockNum rate (JInt cnt) = Inr st'"
      and pos: "0 < cnt"
      and bn: "0 \<le> blockNum" "blockNum + cnt \<le> 2 ^ 53"
      and cand: "map_of (candidatesOf sto) pubkey = Some c"
      and range: "\<forall>u. jailedUntilBlock c = Some u \<longrightarrow> u + cnt \<le> 2 ^ 53"
  shows "\<exists>c'. map_of (candidatesOf (Some st')) pubkey = Some c' \<and> jailed c' \<and>
           jailedUntilBlock c' =
             Some (case jailedUntilBlock c of
                     None \<Rightarrow> blockNum + cnt
                   | Some u \<Rightarrow> if u > blockNum then u + cnt else blockNum + cnt)"
proof -
  from ok obtain r0 n c0 where
    h: "dflt0 (JInt cnt) = JInt n" "map_of (candidatesOf sto) pubkey = Some c0"
       "st' = (storageOr sto)\<lparr> st_candidates :=
                Some (AList.update pubkey (jail blockNum n (slash r0 c0)) (candidatesOf sto)) \<rparr>"
    by (rule punish_Inr_cases)
  from h cand have eq: "n = cnt" "c0 = c" by simp_all
  let ?c' = "jail blockNum cnt (slash r0 c)"
  have 1: "map_of (candidatesOf (Some st')) pubkey = Some ?c'"
    unfolding h(3) eq by (rule candidatesOf_updated)
  have 2: "jailed ?c'"
    using pos by (simp add: jail_def)
  have j: "jailedUntilBlock (slash r0 c) = jailedUntilBlock c"
    by (simp add: slash_def Let_def)
  have 3: "jailedUntilBlock ?c' =
             Some (case jailedUntilBlock c of
                     None \<Rightarrow> blockNum + cnt
                   | Some u \<Rightarrow> if u > blockNum then u + cnt else blockNum + cnt)"
  proof (cases "jailedUntilBlock c")
    case None
    with pos bn j show ?thesis
      by (simp add: jail_def pendingJailedBlock_def js_add_exact)
  next
    case (Some u)
    with range have u: "u + cnt \<le> 2 ^ 53" by simp
    show ?thesis
    proof (cases "u > blockNum")
      case True
      with bn pos u have "js_sub u blockNum = u - blockNum"
        by (intro js_sub_exact) simp
      moreover from True bn pos u have "js_add blockNum (u - blockNum) = u"
        using js_add_exact [of blockNum "u - blockNum"] by simp
      moreover from True bn pos u have "js_add u cnt = u + cnt"
        by (intro js_add_exact) simp
      ultimately show ?thesis
        using Some True pos bn j by (simp add: jail_def pendingJailedBlock_def)
    next
      case False
      with Some pos bn j show ?thesis
        by (simp add: jail_def pendingJailedBlock_def js_add_exact)
    qed
  qed
  from 1 2 3 show ?thesis by blast
qed

section \<open>Properties of getValidators\<close>

lemma capacityOf_capacity_update [simp]: "capacityOf (c\<lparr> capacity := x \<rparr>) = capacityOf c"
  by (simp add: capacityOf_def)









text \<open>Candidates that agree on capacity and block keep the order of the storage.\<close>

lemma orderBy_stable:
  "filter (\<lambda>c. orderKey c = k) (orderBy_capacity_desc_block_asc cs) = filter (\<lambda>c. orderKey c = k) cs"
  by (simp add: orderBy_capacity_desc_block_asc_def sort_key_stable)




section \<open>Properties of resign\<close>

text \<open>No call of \<open>resign\<close> returns: each path ends in an exception.\<close>

lemma resign_always_throws: "\<exists>e. resign checkPermission m blk context pubkey = Inl e"
  by (simp add: resign_def rawWithdrawList_def Let_def split: option.split)

text \<open>
  C8. A candidate with deposit 100 and two voters resigns at block 50, signed by its
  operator and permitted by the Did check. The call raises the TypeError of
  \<open>_rawWithdrawList()\<close>, which is called without the context; nothing is written, so
  the withdrawal list stays empty and \<open>getCandidates\<close> still lists the candidate.
\<close>

theorem resign_permitted_throws_TypeError:
  "resign permit_all ex_msg ex_block ex_resigning ''pk'' =
     Inl (TypeError ''Cannot read property 'getState' of undefined'') \<and>
   map (\<lambda>c. pk_data (pubKey c)) (getCandidates ex_resigning False) = [''pk'']"
  by (simp add: resign_def rawWithdrawList_def rawCandidates_def ex_resigning_def permit_all_def
      getCandidates_def populateCapacity_def orderBy_capacity_desc_block_asc_def
      mk_candidate_def clone_with_pubKey_def candidate.defs listed.defs)

section \<open>Properties of the gate\<close>

subsection \<open>The decimal text of a counter\<close>

lemma digit_char: "k < 10 \<Longrightarrow> digit k \<in> set ''0123456789'' \<and> of_char (digit k) - 48 = k"
proof -
  assume "k < 10"
  then have "k \<in> {0, 1, 2, 3, 4, 5, 6, 7, 8, 9}" by auto
  then show ?thesis by (auto simp: digit_def)
qed

lemma digit_zero: "k < 10 \<Longrightarrow> digit k = CHR ''0'' \<Longrightarrow> k = 0"
proof -
  assume "k < 10" and z: "digit k = CHR ''0''"
  then have "k \<in> {0, 1, 2, 3, 4, 5, 6, 7, 8, 9}" by auto
  with z show ?thesis by (auto simp: digit_def)
qed

lemma digit_not_c: "k < 10 \<Longrightarrow> digit k \<noteq> CHR ''c''"
  using digit_char [of k] by auto

lemma show_nat_nonempty: "show_nat n \<noteq> []"
  by (subst show_nat.simps) simp

lemma last_show_nat: "last (show_nat n) = digit (n mod 10)"
  by (subst show_nat.simps) simp

lemma show_nat_digits: "set (show_nat n) \<subseteq> set ''0123456789''"
proof (induction n rule: show_nat.induct)
  case (1 n)
  show ?case
  proof (cases "n < 10")
    case True
    then show ?thesis
      using digit_char [of n] by (subst show_nat.simps) simp
  next
    case False
    with "1" have "set (show_nat (n div 10)) \<subseteq> set ''0123456789''" by simp
    moreover have "digit (n mod 10) \<in> set ''0123456789''"
      using digit_char [of "n mod 10"] by simp
    ultimately show ?thesis
      using False by (subst show_nat.simps) simp
  qed
qed

lemma decimal_value_snoc:
  "decimal_value (s @ [ch]) = 10 * decimal_value s + (of_char ch - 48)"
  by (simp add: decimal_value_def)

lemma decimal_value_show_nat: "decimal_value (show_nat n) = n"
proof (induction n rule: show_nat.induct)
  case (1 n)
  show ?case
  proof (cases "n < 10")
    case True
    then show ?thesis
      using digit_char [of n] by (subst show_nat.simps) (simp add: decimal_value_def)
  next
    case False
    with "1" have "decimal_value (show_nat (n div 10)) = n div 10" by simp
    moreover have "of_char (digit (n mod 10)) - 48 = n mod 10"
      using digit_char [of "n mod 10"] by simp
    ultimately show ?thesis
      using False by (subst show_nat.simps) (simp add: decimal_value_snoc)
  qed
qed

lemma show_nat_length_1: "n < 10 \<Longrightarrow> length (show_nat n) = 1"
  by (subst show_nat.simps) simp

lemma show_nat_no_leading_zero: "0 < n \<Longrightarrow> hd (show_nat n) \<noteq> CHR ''0''"
proof (induction n rule: show_nat.induct)
  case (1 n)
  show ?case
  proof (cases "n < 10")
    case True
    with "1.prems" show ?thesis
      using digit_zero [of n] by (subst show_nat.simps) auto
  next
    case False
    then have "0 < n div 10" by simp
    with "1.IH" False have "hd (show_nat (n div 10)) \<noteq> CHR ''0''" by simp
    then show ?thesis
      using False show_nat_nonempty [of "n div 10"] by (subst show_nat.simps) simp
  qed
qed

text \<open>
  The text of a counter that is not negative is its decimal numeral; so two counters
  have the same text only when they are equal.
\<close>

lemma show_int_decimal:
  assumes "0 \<le> i"
  shows "is_decimal (show_int i) \<and> int (decimal_value (show_int i)) = i"
proof -
  have "length (show_nat (nat i)) = 1 \<or> hd (show_nat (nat i)) \<noteq> CHR ''0''"
  proof (cases "nat i < 10")
    case True
    then show ?thesis by (simp add: show_nat_length_1)
  next
    case False
    then show ?thesis by (simp add: show_nat_no_leading_zero)
  qed
  with assms show_nat_digits [of "nat i"] show ?thesis
    by (simp add: show_int_def is_decimal_def show_nat_nonempty decimal_value_show_nat)
qed

lemma show_int_0: "show_int 0 = ''0''"
  by (simp add: show_int_def show_nat.simps digit_def)

lemma show_nat_not_c: "show_nat n \<noteq> ''c''"
proof
  assume "show_nat n = ''c''"
  then have "last (show_nat n) = CHR ''c''" by simp
  then show False using digit_not_c [of "n mod 10"] by (simp add: last_show_nat)
qed

lemma show_int_not_c: "show_int i \<noteq> ''c''"
  by (simp add: show_int_def show_nat_not_c)

lemma js_toString_plus_1_not_c: "js_toString (js_plus_1 v) \<noteq> ''c''"
  by (cases v) (simp_all add: show_int_not_c)

subsection \<open>request\<close>

text \<open>A request id is never the key of the sender's counter, so storing the request keeps the counter.\<close>

lemma requestId_not_numKey: "sender @ ''_'' @ js_toString (js_plus_1 v) \<noteq> sender @ ''_c''"
  using js_toString_plus_1_not_c [of v] by simp

lemma request_result:
  assumes "calledFromContract (msg_sender m)"
  shows "\<exists>gs'. request calledFromContract m gs path opts =
            Inr (msg_sender m @ ''_'' @
                   js_toString (js_plus_1 (getState gs (msg_sender m @ ''_c'') (SNum (- 1)))), gs') \<and>
          store gs' (msg_sender m @ ''_c'') =
            Some (js_plus_1 (getState gs (msg_sender m @ ''_c'') (SNum (- 1))))"
  using assms
    requestId_not_numKey [of "msg_sender m" "getState gs (msg_sender m @ ''_c'') (SNum (- 1))"]
  by (auto simp: request_def Let_def setState_def emitEvent_def split: prod.splits)

text \<open>With the counter \<open>n\<close> from \<open>- 1\<close> up to below \<open>2 ^ 53\<close>, the next number is \<open>n + 1\<close>.\<close>

lemma request_next:
  assumes c: "calledFromContract (msg_sender m)"
      and n: "getState gs (msg_sender m @ ''_c'') (SNum (- 1)) = SNum n"
      and range: "- 1 \<le> n" "n < 2 ^ 53"
  shows "\<exists>gs'. request calledFromContract m gs path opts =
            Inr (msg_sender m @ ''_'' @ show_int (n + 1), gs') \<and>
          store gs' (msg_sender m @ ''_c'') = Some (SNum (n + 1))"
proof -
  from range have "js_add n 1 = n + 1"
    by (intro js_add_exact) simp
  with request_result [of calledFromContract m gs path opts] c n show ?thesis
    by simp
qed

text \<open>
  With the counter at \<open>2 ^ 53\<close>, \<open>request\<close> returns the id \<open>R_9007199254740992\<close>, the
  number the counter already holds, and stores \<open>2 ^ 53\<close> again: \<open>lastNum + 1\<close> rounds
  back to \<open>lastNum\<close>. The counter has not gone up by one, and the id is the one of the
  request before.
\<close>

theorem request_counter_stops_at_2_53:
  "store ex_gate_saturated ''R_c'' = Some (SNum 9007199254740992) \<and>
   (\<exists>gs'. request every_sender_is_contract ex_requester_msg ex_gate_saturated
             (PathString ''price'') None = Inr (''R_9007199254740992'', gs') \<and>
          store gs' ''R_c'' = Some (SNum 9007199254740992))"
proof -
  have c: "every_sender_is_contract (msg_sender ex_requester_msg)"
    by (simp add: every_sender_is_contract_def)
  have t: "show_int 9007199254740992 = ''9007199254740992''"
    by (simp add: show_int_def show_nat.simps digit_def)
  have g: "getState ex_gate_saturated (msg_sender ex_requester_msg @ ''_c'') (SNum (- 1)) =
             SNum 9007199254740992"
    by (simp add: getState_def ex_gate_saturated_def ex_requester_msg_def)
  from request_result [of every_sender_is_contract ex_requester_msg ex_gate_saturated
         "PathString ''price''" None] c
  have "\<exists>gs'. request every_sender_is_contract ex_requester_msg ex_gate_saturated
             (PathString ''price'') None = Inr (''R_9007199254740992'', gs') \<and>
          store gs' ''R_c'' = Some (SNum 9007199254740992)"
    by (simp add: g js_add_saturates t) (simp add: ex_requester_msg_def)
  then show ?thesis
    by (simp add: ex_gate_saturated_def)
qed

text \<open>
  C10, as the code has it. For a sender that is a contract: with no counter stored,
  \<open>request\<close> returns the id \<open><sender>_0\<close> and stores the counter 0; with a counter \<open>n\<close>
  stored, from \<open>- 1\<close> up to below \<open>2 ^ 53\<close>, it returns \<open><sender>_\<close> followed by the
  decimal numeral of \<open>n + 1\<close> and stores \<open>n + 1\<close>. Hence two requests in a row by one
  sender, the second counter staying within \<open>2 ^ 53\<close>, carry the numerals of \<open>n + 1\<close>
  and \<open>n + 2\<close>, and their ids differ.
\<close>

theorem request_numbers_from_zero_by_one:
  assumes c: "calledFromContract (msg_sender m)"
  shows "(store gs (msg_sender m @ ''_c'') = None \<longrightarrow>
           (\<exists>gs'. request calledFromContract m gs path opts = Inr (msg_sender m @ ''_0'', gs') \<and>
                  store gs' (msg_sender m @ ''_c'') = Some (SNum 0))) \<and>
         (\<forall>n. store gs (msg_sender m @ ''_c'') = Some (SNum n) \<and> - 1 \<le> n \<and> n < 2 ^ 53 \<longrightarrow>
           (\<exists>gs' dec. request calledFromContract m gs path opts =
                        Inr (msg_sender m @ ''_'' @ dec, gs') \<and>
                      is_decimal dec \<and> int (decimal_value dec) = n + 1 \<and>
                      store gs' (msg_sender m @ ''_c'') = Some (SNum (n + 1)))) \<and>
         (\<forall>n id1 gs1 id2 gs2.
            getState gs (msg_sender m @ ''_c'') (SNum (- 1)) = SNum n \<and>
            - 1 \<le> n \<and> n + 1 < 2 ^ 53 \<and>
            request calledFromContract m gs path opts = Inr (id1, gs1) \<and>
            request calledFromContract m gs1 path2 opts2 = Inr (id2, gs2) \<longrightarrow>
            (\<exists>dec1 dec2.
               id1 = msg_sender m @ ''_'' @ dec1 \<and> id2 = msg_sender m @ ''_'' @ dec2 \<and>
               is_decimal dec1 \<and> is_decimal dec2 \<and>
               int (decimal_value dec1) = n + 1 \<and> int (decimal_value dec2) = n + 2 \<and>
               id1 \<noteq> id2))"
proof -
  let ?k = "msg_sender m @ ''_c''"
  have first: "store gs ?k = None \<longrightarrow>
           (\<exists>gs'. request calledFromContract m gs path opts = Inr (msg_sender m @ ''_0'', gs') \<and>
                  store gs' ?k = Some (SNum 0))"
  proof
    assume "store gs ?k = None"
    then have "getState gs ?k (SNum (- 1)) = SNum (- 1)"
      by (simp add: getState_def)
    from request_next [where calledFromContract = calledFromContract and m = m and gs = gs
                         and n = "- 1" and path = path and opts = opts] c this
    show "\<exists>gs'. request calledFromContract m gs path opts = Inr (msg_sender m @ ''_0'', gs') \<and>
                  store gs' ?k = Some (SNum 0)"
      by (simp add: show_int_0)
  qed
  have nxt: "\<forall>n. store gs ?k = Some (SNum n) \<and> - 1 \<le> n \<and> n < 2 ^ 53 \<longrightarrow>
           (\<exists>gs' dec. request calledFromContract m gs path opts =
                        Inr (msg_sender m @ ''_'' @ dec, gs') \<and>
                      is_decimal dec \<and> int (decimal_value dec) = n + 1 \<and>
                      store gs' ?k = Some (SNum (n + 1)))"
  proof (intro allI impI, elim conjE)
    fix n
    assume s: "store gs ?k = Some (SNum n)" and r: "- 1 \<le> n" "n < 2 ^ 53"
    from s have "getState gs ?k (SNum (- 1)) = SNum n"
      by (simp add: getState_def)
    from request_next [where calledFromContract = calledFromContract and m = m and gs = gs
                         and n = n and path = path and opts = opts] c this r
    obtain gs' where
      "request calledFromContract m gs path opts =
         Inr (msg_sender m @ ''_'' @ show_int (n + 1), gs')"
      "store gs' ?k = Some (SNum (n + 1))"
      by blast
    moreover from r have "is_decimal (show_int (n + 1)) \<and> int (decimal_value (show_int (n + 1))) = n + 1"
      by (intro show_int_decimal) simp
    ultimately show "\<exists>gs' dec. request calledFromContract m gs path opts =
                        Inr (msg_sender m @ ''_'' @ dec, gs') \<and>
                      is_decimal dec \<and> int (decimal_value dec) = n + 1 \<and>
                      store gs' ?k = Some (SNum (n + 1))"
      by blast
  qed
  have two: "\<forall>n id1 gs1 id2 gs2.
            getState gs ?k (SNum (- 1)) = SNum n \<and>
            - 1 \<le> n \<and> n + 1 < 2 ^ 53 \<and>
            request calledFromContract m gs path opts = Inr (id1, gs1) \<and>
            request calledFromContract m gs1 path2 opts2 = Inr (id2, gs2) \<longrightarrow>
            (\<exists>dec1 dec2.
               id1 = msg_sender m @ ''_'' @ dec1 \<and> id2 = msg_sender m @ ''_'' @ dec2 \<and>
               is_decimal dec1 \<and> is_decimal dec2 \<and>
               int (decimal_value dec1) = n + 1 \<and> int (decimal_value dec2) = n + 2 \<and>
               id1 \<noteq> id2)"
  proof (intro allI impI, elim conjE)
    fix n id1 gs1 id2 gs2
    assume n: "getState gs ?k (SNum (- 1)) = SNum n"
      and r: "- 1 \<le> n" "n + 1 < 2 ^ 53"
      and r1: "request calledFromContract m gs path opts = Inr (id1, gs1)"
      and r2: "request calledFromContract m gs1 path2 opts2 = Inr (id2, gs2)"
    from r have r': "n < 2 ^ 53" by simp
    from request_next [where calledFromContract = calledFromContract and m = m and gs = gs
                         and n = n and path = path and opts = opts] c n r(1) r' r1
    have 1: "id1 = msg_sender m @ ''_'' @ show_int (n + 1)" "store gs1 ?k = Some (SNum (n + 1))"
      by auto
    from 1(2) have n1: "getState gs1 ?k (SNum (- 1)) = SNum (n + 1)"
      by (simp add: getState_def)
    from r have r1': "- 1 \<le> n + 1" by simp
    from request_next [where calledFromContract = calledFromContract and m = m and gs = gs1
                         and n = "n + 1" and path = path2 and opts = opts2] c n1 r1' r(2) r2
    have 2: "id2 = msg_sender m @ ''_'' @ show_int (n + 2)"
      by (auto simp: add.assoc)
    from r have d1: "is_decimal (show_int (n + 1)) \<and> int (decimal_value (show_int (n + 1))) = n + 1"
      by (intro show_int_decimal) simp
    from r have d2: "is_decimal (show_int (n + 2)) \<and> int (decimal_value (show_int (n + 2))) = n + 2"
      by (intro show_int_decimal) simp
    have "show_int (n + 1) \<noteq> show_int (n + 2)"
    proof
      assume "show_int (n + 1) = show_int (n + 2)"
      then have "int (decimal_value (show_int (n + 1))) = int (decimal_value (show_int (n + 2)))"
        by simp
      with d1 d2 show False by simp
    qed
    with 1 2 d1 d2 show "\<exists>dec1 dec2.
               id1 = msg_sender m @ ''_'' @ dec1 \<and> id2 = msg_sender m @ ''_'' @ dec2 \<and>
               is_decimal dec1 \<and> is_decimal dec2 \<and>
               int (decimal_value dec1) = n + 1 \<and> int (decimal_value dec2) = n + 2 \<and>
               id1 \<noteq> id2"
      by auto
  qed
  from first nxt two show ?thesis by blast
qed

lemma ex_provider_registered:
  "registerProvider 10 ex_registering_msg ex_gate_empty None None = Inr ex_gate_registered"
  by (simp add: registerProvider_def ex_registering_msg_def ex_gate_empty_def ex_gate_registered_def
      ex_provider_record_def getState_def setState_def emitEvent_def assignOptions_def
      option_set_def Let_def show_int_def show_nat.simps digit_def)

lemma ex_first_request:
  "request every_sender_is_contract ex_requester_msg ex_gate_registered (PathString ''price'') None =
     Inr (''R_0'', ex_gate_requested)"
  by (simp add: request_def every_sender_is_contract_def ex_requester_msg_def ex_gate_registered_def
      ex_gate_requested_def ex_request_def getState_def setState_def emitEvent_def PROVIDERS_KEY_def
      show_int_0 js_add_exact Let_def)

theorem request_numbers_from_zero_by_one_witness:
  "request every_sender_is_contract ex_requester_msg ex_gate_registered (PathString ''price'') None =
     Inr (''R_0'', ex_gate_requested) \<and>
   store ex_gate_requested ''R_c'' = Some (SNum 0) \<and>
   (\<exists>gs'. request every_sender_is_contract ex_requester_msg ex_gate_requested (PathString ''price'') None =
            Inr (''R_1'', gs') \<and> store gs' ''R_c'' = Some (SNum 1))"
proof -
  have c: "every_sender_is_contract (msg_sender ex_requester_msg)"
    by (simp add: every_sender_is_contract_def)
  have e: "store ex_gate_registered (msg_sender ex_requester_msg @ ''_c'') = None"
    by (simp add: ex_gate_registered_def ex_requester_msg_def PROVIDERS_KEY_def)
  have g: "store ex_gate_requested (msg_sender ex_requester_msg @ ''_c'') = Some (SNum 0)"
    by (simp add: ex_gate_requested_def ex_requester_msg_def PROVIDERS_KEY_def)
  from request_numbers_from_zero_by_one
         [where calledFromContract = every_sender_is_contract and m = ex_requester_msg
            and gs = ex_gate_registered and path = "PathString ''price''" and opts = None] c e
  have "\<exists>gs'. request every_sender_is_contract ex_requester_msg ex_gate_registered (PathString ''price'') None =
            Inr (''R_0'', gs') \<and> store gs' ''R_c'' = Some (SNum 0)"
    by (simp add: ex_requester_msg_def)
  then have 1: "request every_sender_is_contract ex_requester_msg ex_gate_registered (PathString ''price'') None =
     Inr (''R_0'', ex_gate_requested) \<and> store ex_gate_requested ''R_c'' = Some (SNum 0)"
    by (simp add: ex_first_request)
  from request_numbers_from_zero_by_one
         [where calledFromContract = every_sender_is_contract and m = ex_requester_msg
            and gs = ex_gate_requested and path = "PathString ''price''" and opts = None] c g
  obtain gs' dec where r: "request every_sender_is_contract ex_requester_msg ex_gate_requested
        (PathString ''price'') None = Inr (msg_sender ex_requester_msg @ ''_'' @ dec, gs')"
      "store gs' (msg_sender ex_requester_msg @ ''_c'') = Some (SNum (0 + 1))"
    by force
  from request_next [where calledFromContract = every_sender_is_contract and m = ex_requester_msg
                       and gs = ex_gate_requested and n = 0 and path = "PathString ''price''"
                       and opts = None] c g r(1)
  have "dec = show_int (0 + 1)"
    by (auto simp: getState_def)
  then have "dec = ''1''"
    by (simp add: show_int_def show_nat.simps digit_def)
  with r have 2: "\<exists>gs'. request every_sender_is_contract ex_requester_msg ex_gate_requested
        (PathString ''price'') None = Inr (''R_1'', gs') \<and> store gs' ''R_c'' = Some (SNum 1)"
    by (simp add: ex_requester_msg_def)
  from 1 2 show ?thesis by blast
qed

subsection \<open>setResult\<close>

text \<open>
  What \<open>setResult\<close> does by itself once its own test of the sender passes: when the
  sender is a property of the providers' object, a request is stored under the id and
  the requester's callback returns, \<open>setResult\<close> returns what the callback returned, in
  the state the callback left with the request deleted; and in that state \<open>setResult\<close>
  for the same id throws \<open>Request <id> no longer exists.\<close>
\<close>

lemma setResult_when_sender_is_a_key:
  assumes reg: "hasOwnProperty (getState gs PROVIDERS_KEY (SObject [])) (msg_sender m)"
      and stored: "store gs requestId = Some (SRequest rd)"
      and cb: "onOffchainData (map_of (rq_options rd) ''requester'') requestId (SRequest rd) result gs
                 = Inr (r, gs1)"
  shows "setResult onOffchainData m gs requestId result = Inr (r, deleteState gs1 requestId) \<and>
         store (deleteState gs1 requestId) requestId = None \<and>
         (\<forall>m2 result2.
            hasOwnProperty (getState (deleteState gs1 requestId) PROVIDERS_KEY (SObject []))
              (msg_sender m2) \<longrightarrow>
            setResult onOffchainData m2 (deleteState gs1 requestId) requestId result2 =
              Inl (Error (''Request '' @ requestId @ '' no longer exists.'')))"
proof -
  have 1: "setResult onOffchainData m gs requestId result = Inr (r, deleteState gs1 requestId)"
    using assms by (simp add: setResult_def Let_def)
  have 2: "store (deleteState gs1 requestId) requestId = None"
    by (simp add: deleteState_def)
  have 3: "\<forall>m2 result2.
            hasOwnProperty (getState (deleteState gs1 requestId) PROVIDERS_KEY (SObject []))
              (msg_sender m2) \<longrightarrow>
            setResult onOffchainData m2 (deleteState gs1 requestId) requestId result2 =
              Inl (Error (''Request '' @ requestId @ '' no longer exists.''))"
    using 2 by (simp add: setResult_def Let_def)
  from 1 2 3 show ?thesis by blast
qed

text \<open>
  After \<open>registerProvider\<close> the providers' object is the record of the provider that
  registered: its properties are among \<open>deposit\<close>, \<open>operator\<close>, \<open>awardAddress\<close> and
  \<open>encryptionPubKey\<close>, and no address is one of them.
\<close>

lemma assignOptions_keys:
  "set (map fst (assignOptions [(''deposit'', d), (''operator'', who)] options)) \<subseteq>
     set [''deposit'', ''operator'', ''awardAddress'', ''encryptionPubKey'']"
  by (auto simp: assignOptions_def Let_def dom_update split: option.splits
      dest!: subsetD [OF Set.equalityD1 [OF dom_update]])

lemma registerProvider_then_setResult_fails:
  assumes reg: "registerProvider minProviderDeposit m gs providerAddr options = Inr gs'"
      and sender: "msg_sender m2 \<notin> set [''deposit'', ''operator'', ''awardAddress'', ''encryptionPubKey'']"
  shows "setResult onOffchainData m2 gs' requestId result =
           Inl (Error (''Provider not registered: '' @ msg_sender m2 @ ''.''))"
proof -
  from reg obtain d options' where
    "getState gs' PROVIDERS_KEY (SObject []) =
       SObject (assignOptions [(''deposit'', d), (''operator'', msg_sender m)] options')"
    by (auto simp: registerProvider_def Let_def getState_def setState_def emitEvent_def
        split: if_splits)
  with assignOptions_keys [of d "msg_sender m" options'] sender
  have "\<not> hasOwnProperty (getState gs' PROVIDERS_KEY (SObject [])) (msg_sender m2)"
    by auto
  then show ?thesis
    by (simp add: setResult_def Let_def)
qed

text \<open>
  C9. \<open>P\<close> registers as a provider with a sufficient deposit, the contract \<open>R\<close> makes a
  request, which is stored under \<open>R_0\<close>, and \<open>P\<close> calls \<open>setResult\<close> for \<open>R_0\<close>. The call
  throws \<open>Provider not registered: P.\<close>: the callback is not invoked and the request
  stays stored.
\<close>

theorem setResult_by_registered_provider_throws:
  "registerProvider 10 ex_registering_msg ex_gate_empty None None = Inr ex_gate_registered \<and>
   request every_sender_is_contract ex_requester_msg ex_gate_registered (PathString ''price'') None =
     Inr (''R_0'', ex_gate_requested) \<and>
   store ex_gate_requested ''R_0'' = Some (SRequest ex_request) \<and>
   setResult ex_callback ex_provider_msg ex_gate_requested ''R_0'' ''42'' =
     Inl (Error ''Provider not registered: P.'')"
  by (simp add: ex_provider_registered ex_first_request)
     (simp add: setResult_def getState_def ex_gate_requested_def ex_provider_record_def
      ex_provider_msg_def PROVIDERS_KEY_def)

section \<open>Properties of the message of a view call\<close>

text \<open>
  \<open>Object.keys(msg)\<close> lists exactly the four permitted names, so the condition of the
  \<open>throw\<close> never holds: no read of the message raises an error.
\<close>

lemma view_msg_read_never_throws:
  "contextForView_msg_read fname params from_addr prop =
     Inr (Reflect_get (view_msg_target fname params from_addr) prop)"
  by (auto simp: contextForView_msg_read_def view_msg_get_def Object_keys_def view_msg_target_def)

lemma view_msg_keys:
  "Object_keys (view_msg_target fname params from_addr) = [''name'', ''params'', ''sender'', ''callType'']"
  by (simp add: Object_keys_def view_msg_target_def)

text \<open>
  C3. In the context of a view call, for any function name, parameters and caller,
  reading \<open>msg.value\<close>, \<open>msg.fee\<close> or \<open>msg.signers\<close> returns undefined; it does not throw.
\<close>

theorem view_msg_value_fee_signers_read_undefined:
  "contextForView_msg_read fname params from_addr ''value'' = Inr Undefined \<and>
   contextForView_msg_read fname params from_addr ''fee'' = Inr Undefined \<and>
   contextForView_msg_read fname params from_addr ''signers'' = Inr Undefined"
  by (simp add: view_msg_read_never_throws Reflect_get_def view_msg_target_def
      Object_prototype_members_def)

section \<open>Properties of the transaction pipeline\<close>

lemma check_destination_keeps:
  "check_destination env s t = Inr t1 \<Longrightarrow>
     tx_from t1 = tx_from t \<and> tx_signers t1 = tx_signers t \<and>
     tx_value t1 = tx_value t \<and> tx_fee t1 = tx_fee t"
  by (auto simp: check_destination_def split: option.splits if_splits sum.splits)

lemma check_signers_sender:
  "check_signers t = Inr a \<Longrightarrow> sender_of t = Some a"
  by (auto simp: check_signers_def sender_of_def addr_truthy_def
      split: list.splits option.splits if_splits)

lemma checkTx_before_balance_Inr:
  assumes "checkTx_before_balance env s t = Inr (t2, a)"
  shows "sender_of t = Some a \<and> tx_value t2 = tx_value t \<and> tx_fee t2 = tx_fee t \<and>
         tx_from t2 = Some a"
proof -
  from assms obtain t1 where d: "check_destination env s t = Inr t1"
    and sg: "check_signers t1 = Inr a" and t2: "t2 = t1\<lparr> tx_from := Some a \<rparr>"
    by (auto simp: checkTx_before_balance_def split: option.splits sum.splits)
  from check_destination_keeps [OF d]
  have k: "tx_from t1 = tx_from t" "tx_signers t1 = tx_signers t"
    "tx_value t1 = tx_value t" "tx_fee t1 = tx_fee t" by simp_all
  from k have "sender_of t1 = sender_of t"
    by (simp add: sender_of_def)
  with check_signers_sender [OF sg] have "sender_of t = Some a"
    by simp
  with t2 k show ?thesis by simp
qed

text \<open>A transaction that \<open>checkTx\<close> accepts has a sender who can pay value plus fee.\<close>

lemma checkTx_Inr_balance:
  assumes "checkTx env s t = Inr t2"
  shows "\<exists>a. sender_of t = Some a \<and> tx_value t + tx_fee t \<le> balanceOf env s a"
proof -
  from assms obtain a where b: "checkTx_before_balance env s t = Inr (t2, a)"
    and le: "\<not> tx_value t2 + tx_fee t2 > balanceOf env s a"
    by (auto simp: checkTx_def split: sum.splits if_splits)
  from checkTx_before_balance_Inr [OF b] le show ?thesis by auto
qed

text \<open>
  C1. When value plus fee exceeds the balance of the sender (\<open>tx.from || tx.signers[0]\<close>),
  \<open>checkTx\<close> throws, \<open>execTx\<close> throws, and the state after \<open>execTx\<close> is the state before
  it: the same canonical store and no checkpoint notification. When the checks before
  the balance check pass, the error is \<open>Not enough balance\<close>.
\<close>

theorem execTx_rejects_insufficient_balance:
  assumes sender: "sender_of t = Some a"
      and low: "balanceOf env (canonical st) a < tx_value t + tx_fee t"
  shows "(\<exists>e. checkTx env (canonical st) t = Inl e) \<and>
         (\<exists>e. execTx env st t = (Inl e, st)) \<and>
         (\<forall>t2 a2. checkTx_before_balance env (canonical st) t = Inr (t2, a2) \<longrightarrow>
            execTx env st t = (Inl (Error ''Not enough balance''), st))"
proof -
  have 1: "\<exists>e. checkTx env (canonical st) t = Inl e"
  proof (cases "checkTx env (canonical st) t")
    case (Inl e)
    then show ?thesis by blast
  next
    case (Inr t2)
    from checkTx_Inr_balance [OF Inr] sender low show ?thesis by auto
  qed
  then have 2: "\<exists>e. execTx env st t = (Inl e, st)"
    by (auto simp: execTx_def)
  have 3: "\<forall>t2 a2. checkTx_before_balance env (canonical st) t = Inr (t2, a2) \<longrightarrow>
            execTx env st t = (Inl (Error ''Not enough balance''), st)"
  proof (intro allI impI)
    fix t2 a2
    assume b: "checkTx_before_balance env (canonical st) t = Inr (t2, a2)"
    from checkTx_before_balance_Inr [OF b] sender low
    have "tx_value t2 + tx_fee t2 > balanceOf env (canonical st) a2" by auto
    with b show "execTx env st t = (Inl (Error ''Not enough balance''), st)"
      by (simp add: execTx_def checkTx_def)
  qed
  from 1 2 3 show ?thesis by blast
qed

lemmas ex_checks =
  checkTx_before_balance_def check_destination_def check_signers_def ensureAddress_def
  ex_env_def ex_state_def ex_balanceOf_def isContractCreation_def isContractCall_def

theorem execTx_rejects_insufficient_balance_witness:
  "execTx ex_env ex_state ex_overdraft = (Inl (Error ''Not enough balance''), ex_state)"
proof -
  have sender: "sender_of ex_overdraft = Some ''alice''"
    by (simp add: sender_of_def addr_truthy_def ex_overdraft_def)
  have low: "balanceOf ex_env (canonical ex_state) ''alice'' < tx_value ex_overdraft + tx_fee ex_overdraft"
    by (simp add: ex_env_def ex_state_def ex_balanceOf_def ex_overdraft_def)
  have pre: "checkTx_before_balance ex_env (canonical ex_state) ex_overdraft =
               Inr (ex_overdraft\<lparr> tx_from := Some ''alice'' \<rparr>, ''alice'')"
    by (simp add: ex_checks ex_overdraft_def)
  from execTx_rejects_insufficient_balance [OF sender low] pre
  show ?thesis by blast
qed

text \<open>With a draft, \<open>doExecTx\<close> leaves the canonical store alone and returns a draft.\<close>

lemma step_deploy_Some:
  "step_deploy env (Some dr) t = Inr (t1, d1) \<Longrightarrow> \<exists>dr1. d1 = Some dr1"
  by (auto simp: step_deploy_def split: if_splits sum.splits prod.splits)

lemma step_transfer_Some:
  "step_transfer env s (Some dr) t = Inr (s1, d1) \<Longrightarrow> s1 = s \<and> (\<exists>dr1. d1 = Some dr1)"
  by (auto simp: step_transfer_def split: sum.splits)

lemma step_invoke_Some:
  "step_invoke env s (Some dr) t = Inr (r, d1) \<Longrightarrow> \<exists>dr1. d1 = Some dr1"
  by (auto simp: step_invoke_def split: if_splits sum.splits option.splits prod.splits)

lemma step_received_Some:
  "step_received env s (Some dr) t res = Inr (r, d1) \<Longrightarrow> \<exists>dr1. d1 = Some dr1"
  by (auto simp: step_received_def split: if_splits sum.splits prod.splits)

lemma step_refund_Some:
  "step_refund env (Some dr) t res = Inr (r, d1) \<Longrightarrow> \<exists>dr1. d1 = Some dr1"
  by (auto simp: step_refund_def split: if_splits sum.splits option.splits)

lemma doExecTx_with_draft:
  assumes "doExecTx env s (Some dr) t = (out, s')"
  shows "s' = s \<and> (\<forall>res d'. out = Inr (res, d') \<longrightarrow> (\<exists>patch. d' = Some patch))"
  using assms
  apply (simp add: doExecTx_def split: sum.splits prod.splits)
  apply (auto dest!: step_deploy_Some step_transfer_Some step_invoke_Some step_received_Some
      step_refund_Some)
  done

lemma ex_reserved_call_checked:
  "checkTx ex_env (canonical ex_state) ex_reserved_call =
     Inr (ex_reserved_call\<lparr> tx_from := Some ''alice'' \<rparr>)"
  by (simp add: checkTx_def ex_checks ex_reserved_call_def)

lemma ex_reserved_call_fails:
  "doExecTx ex_env (canonical ex_state)
      (draft_for ex_env (canonical ex_state) (ex_reserved_call\<lparr> tx_from := Some ''alice'' \<rparr>))
      (ex_reserved_call\<lparr> tx_from := Some ''alice'' \<rparr>) =
     (Inl (Error ''Calling this method directly is not allowed''), canonical ex_state)"
  by (simp add: ex_checks ex_reserved_call_def draft_for_def willCallContract_def doExecTx_def
      step_deploy_def step_transfer_def step_invoke_def reserved_names_def xfer_of_tx_def)

text \<open>
  A call of the reserved method \<open>constructor\<close> passes \<open>checkTx\<close> and is rejected by
  \<open>doExecTx\<close> after \<open>beginCheckpoint\<close>. \<open>execTx\<close> throws; the canonical store is unchanged,
  and the only notification is the one of \<open>beginCheckpoint\<close>: \<open>endCheckpoint\<close> is not
  invoked.
\<close>

theorem execTx_failure_skips_endCheckpoint:
  "fst (execTx ex_env ex_state ex_reserved_call) =
     Inl (Error ''Calling this method directly is not allowed'') \<and>
   canonical (snd (execTx ex_env ex_state ex_reserved_call)) = canonical ex_state \<and>
   hooks (snd (execTx ex_env ex_state ex_reserved_call)) = [BeginCheckpoint] \<and>
   EndCheckpoint \<notin> set (hooks (snd (execTx ex_env ex_state ex_reserved_call)))"
  by (simp add: execTx_def ex_reserved_call_checked ex_reserved_call_fails beginCheckpoint_def)
     (simp add: ex_state_def)

text \<open>
  C2, as the code has it. For a transaction that \<open>checkTx\<close> accepts, \<open>execTx\<close> invokes
  \<open>beginCheckpoint\<close> once, then:
  \<^item> if \<open>doExecTx\<close> throws, \<open>execTx\<close> throws the same error; the draft is not applied
    (when a draft was produced the canonical store is the one before the call) and
    \<open>endCheckpoint\<close> is not invoked, so the notifications end with the one of
    \<open>beginCheckpoint\<close>;
  \<^item> if \<open>doExecTx\<close> returns, the draft, when one was produced, is applied to the canonical
    store, and \<open>endCheckpoint\<close> is invoked once after \<open>beginCheckpoint\<close>.
\<close>

theorem execTx_checkpoint_pairs_only_on_success:
  assumes chk: "checkTx env (canonical st) t = Inr t1"
  shows "(\<forall>e s'. doExecTx env (canonical st) (draft_for env (canonical st) t1) t1 = (Inl e, s') \<longrightarrow>
            execTx env st t = (Inl e, \<lparr> canonical = s', hooks = hooks st @ [BeginCheckpoint] \<rparr>) \<and>
            (willCallContract env (canonical st) t1 \<longrightarrow> s' = canonical st)) \<and>
         (\<forall>res d' s'.
            doExecTx env (canonical st) (draft_for env (canonical st) t1) t1 = (Inr (res, d'), s') \<longrightarrow>
            (\<exists>s''. execTx env st t =
                     (Inr (result_or_empty res),
                      \<lparr> canonical = s'', hooks = hooks st @ [BeginCheckpoint, EndCheckpoint] \<rparr>) \<and>
                   (willCallContract env (canonical st) t1 \<longrightarrow>
                      (\<exists>patch. d' = Some patch \<and> s'' = applyDraft env (canonical st) patch)) \<and>
                   (\<not> willCallContract env (canonical st) t1 \<longrightarrow> s'' = s')))"
proof (intro conjI allI impI)
  fix e s'
  assume d: "doExecTx env (canonical st) (draft_for env (canonical st) t1) t1 = (Inl e, s')"
  with chk show "execTx env st t = (Inl e, \<lparr> canonical = s', hooks = hooks st @ [BeginCheckpoint] \<rparr>)"
    by (simp add: execTx_def beginCheckpoint_def Let_def)
  assume "willCallContract env (canonical st) t1"
  with d doExecTx_with_draft [of env "canonical st" "produceDraft env (canonical st)" t1 "Inl e" s']
  show "s' = canonical st" by (simp add: draft_for_def)
next
  fix res d' s'
  assume d: "doExecTx env (canonical st) (draft_for env (canonical st) t1) t1 = (Inr (res, d'), s')"
  show "\<exists>s''. execTx env st t =
                     (Inr (result_or_empty res),
                      \<lparr> canonical = s'', hooks = hooks st @ [BeginCheckpoint, EndCheckpoint] \<rparr>) \<and>
                   (willCallContract env (canonical st) t1 \<longrightarrow>
                      (\<exists>patch. d' = Some patch \<and> s'' = applyDraft env (canonical st) patch)) \<and>
                   (\<not> willCallContract env (canonical st) t1 \<longrightarrow> s'' = s')"
  proof (cases "willCallContract env (canonical st) t1")
    case True
    with d doExecTx_with_draft
             [of env "canonical st" "produceDraft env (canonical st)" t1 "Inr (res, d')" s']
    obtain patch where p: "s' = canonical st" "d' = Some patch"
      by (auto simp: draft_for_def)
    with chk d True show ?thesis
      by (simp add: execTx_def beginCheckpoint_def endCheckpoint_def Let_def)
  next
    case False
    with chk d show ?thesis
      by (simp add: execTx_def beginCheckpoint_def endCheckpoint_def Let_def)
  qed
qed

lemma ex_transfer_checked:
  "checkTx ex_env (canonical ex_state) ex_transfer = Inr (ex_transfer\<lparr> tx_from := Some ''alice'' \<rparr>)"
  by (simp add: checkTx_def ex_checks ex_transfer_def)

lemma ex_transfer_runs:
  "doExecTx ex_env (canonical ex_state)
      (draft_for ex_env (canonical ex_state) (ex_transfer\<lparr> tx_from := Some ''alice'' \<rparr>))
      (ex_transfer\<lparr> tx_from := Some ''alice'' \<rparr>) =
     (Inr (Some \<lparr> r_value = None, r_tags = Some [(''event'', ''Transferred'')], r_gas_used = None \<rparr>,
           None),
      [(''alice'', 94), (''contract1'', 0), (''bob'', 5)])"
  by (simp add: ex_checks ex_transfer_def draft_for_def willCallContract_def doExecTx_def
      step_deploy_def step_transfer_def step_invoke_def step_received_def step_refund_def
      step_transferred_def xfer_of_tx_def ex_move_def)

theorem execTx_checkpoint_pairs_only_on_success_witness:
  "execTx ex_env ex_state ex_reserved_call =
     (Inl (Error ''Calling this method directly is not allowed''),
      \<lparr> canonical = canonical ex_state, hooks = hooks ex_state @ [BeginCheckpoint] \<rparr>) \<and>
   (\<exists>s''. execTx ex_env ex_state ex_transfer =
      (Inr \<lparr> r_value = None, r_tags = Some [(''event'', ''Transferred'')], r_gas_used = None \<rparr>,
       \<lparr> canonical = s'', hooks = hooks ex_state @ [BeginCheckpoint, EndCheckpoint] \<rparr>))"
proof -
  from execTx_checkpoint_pairs_only_on_success [OF ex_reserved_call_checked] ex_reserved_call_fails
  have 1: "execTx ex_env ex_state ex_reserved_call =
     (Inl (Error ''Calling this method directly is not allowed''),
      \<lparr> canonical = canonical ex_state, hooks = hooks ex_state @ [BeginCheckpoint] \<rparr>)"
    by blast
  from execTx_checkpoint_pairs_only_on_success [OF ex_transfer_checked] ex_transfer_runs
  have 2: "\<exists>s''. execTx ex_env ex_state ex_transfer =
      (Inr (result_or_empty
              (Some \<lparr> r_value = None, r_tags = Some [(''event'', ''Transferred'')], r_gas_used = None \<rparr>)),
       \<lparr> canonical = s'', hooks = hooks ex_state @ [BeginCheckpoint, EndCheckpoint] \<rparr>)"
    by blast
  from 1 2 show ?thesis by (simp add: result_or_empty_def)
qed

end
